theory Spec2Isabelle
  imports Main
begin

section \<open>JavaScript values\<close>

text \<open>
  The session object is JavaScript: server responses are parsed JSON, and the session's
  public properties hold whatever value is assigned to them. Values are modelled by
  \<open>jsval\<close>; numbers are the integers (the only number the program inspects is the
  error code 111). An object is given by its properties, the first binding of a name
  being its value. A failed property read on \<open>null\<close> or \<open>undefined\<close> is the value
  \<open>Inl TypeError\<close>.
\<close>

datatype jsval =
    JUndefined
  | JNull
  | JBool bool
  | JNum int
  | JStr string
  | JArr "jsval list"
  | JObj "(string \<times> jsval) list"

datatype error = TypeError

text \<open>JavaScript truthiness, as used by \<open>if (x)\<close>, \<open>!x\<close> and \<open>x && y\<close>.\<close>

fun truthy :: "jsval \<Rightarrow> bool" where
  "truthy JUndefined = False"
| "truthy JNull = False"
| "truthy (JBool b) = b"
| "truthy (JNum n) = (n \<noteq> 0)"
| "truthy (JStr s) = (s \<noteq> [])"
| "truthy (JArr xs) = True"
| "truthy (JObj kvs) = True"

text \<open>
  Property read \<open>v.k\<close> for the property names the program uses (none of them is a
  built-in property of strings, numbers, booleans or arrays).
\<close>

fun get_prop :: "jsval \<Rightarrow> string \<Rightarrow> error + jsval" where
  "get_prop JUndefined k = Inl TypeError"
| "get_prop JNull k = Inl TypeError"
| "get_prop (JObj kvs) k = Inr (case map_of kvs k of None \<Rightarrow> JUndefined | Some x \<Rightarrow> x)"
| "get_prop v k = Inr JUndefined"

text \<open>Decimal rendering of a number, as \<open>String(n)\<close> gives it for an integer.\<close>

function show_nat :: "nat \<Rightarrow> string" where
  "show_nat n =
     (if n < 10 then [char_of (48 + n)]
      else show_nat (n div 10) @ [char_of (48 + n mod 10)])"
  by pat_completeness auto
termination
  by (relation "measure (\<lambda>n. n)") auto

definition show_int :: "int \<Rightarrow> string" where
  "show_int i = (if i < 0 then CHR ''-'' # show_nat (nat (- i)) else show_nat (nat i))"

fun join_comma :: "string list \<Rightarrow> string" where
  "join_comma [] = []"
| "join_comma [s] = s"
| "join_comma (s # t # ss) = s @ '','' @ join_comma (t # ss)"

text \<open>
  \<open>String(v)\<close>: the conversion the storage applies to the keys and values it is given.
  An array is its elements joined by commas, \<open>null\<close> and \<open>undefined\<close> elements
  rendered empty.
\<close>

fun js_ToString :: "jsval \<Rightarrow> string" where
  "js_ToString JUndefined = ''undefined''"
| "js_ToString JNull = ''null''"
| "js_ToString (JBool b) = (if b then ''true'' else ''false'')"
| "js_ToString (JNum n) = show_int n"
| "js_ToString (JStr s) = s"
| "js_ToString (JArr xs) =
     join_comma (map (\<lambda>x. if x = JNull \<or> x = JUndefined then [] else js_ToString x) xs)"
| "js_ToString (JObj kvs) = ''[object Object]''"

text \<open>
  The loose comparison \<open>v == "App.startSession"\<close>. A string compares by content; an
  array is first converted to its string, so only a one-element array can match (the
  name has no comma); every other value differs.
\<close>

fun looseEq_startSession :: "jsval \<Rightarrow> bool" where
  "looseEq_startSession (JStr s) = (s = ''App.startSession'')"
| "looseEq_startSession (JArr [v]) = looseEq_startSession v"
| "looseEq_startSession v = False"

section \<open>The session object and its environment\<close>

text \<open>
  Modelled from the spec: the status codes \<open>NewgroundsIO.SessionState\<close> are declared
  outside the session template; they are ten distinct constants.
\<close>

datatype SessionState =
    SESSION_UNINITIALIZED
  | WAITING_FOR_SERVER
  | WAITING_FOR_USER
  | LOGIN_REQUIRED
  | LOGIN_SUCCESSFUL
  | LOGIN_CANCELLED
  | LOGIN_FAILED
  | USER_LOGGED_OUT
  | SERVER_UNAVAILABLE
  | EXCEEDED_MAX_ATTEMPTS

text \<open>
  A remote call handed to the service core and not yet answered: the components sent
  and the completion handler armed. \<open>OnEndThenStart cb\<close> is the anonymous callback of
  \<open>endSession\<close>; \<open>cb\<close> says whether the caller supplied a function.
\<close>

datatype component = App_startSession | App_checkSession | App_endSession

datatype handler = OnStartSession | OnCheckSession | OnEndThenStart bool

datatype call = Call "component list" handler

text \<open>
  Effects on the outside world, in the order they happen. A callback of the caller is an
  observer: its invocation is recorded (\<open>OnChange\<close> with the status the session shows it,
  \<open>OnComplete\<close> for the callback of \<open>endSession\<close>), and a method it calls on the session
  is a later step of the run.
\<close>

datatype event =
    OnChange SessionState
  | OnComplete
  | ConsoleError
  | ConsoleWarn
  | WindowOpen jsval

text \<open>
  The private fields of the class (\<open>#status\<close> ... \<open>#saved_id\<close>, in the older template
  \<open>_status\<close> ... \<open>_saved_id\<close>), the public properties the methods read and write, and
  the environment. The private field \<open>#mode\<close> (\<open>priv_mode\<close>) and the public property
  \<open>mode\<close> are two different fields, as in the source; \<open>mode\<close> is \<open>None\<close> until it is
  first assigned. \<open>ngioCore\<close> holds the \<open>appID\<close> of the attached core.
\<close>

record state =
  status :: SessionState
  lastStatus :: "SessionState option"
  statusChanged :: bool
  lastUpdate :: int
  canUpdate :: bool
  priv_mode :: string
  totalAttempts :: nat
  maxAttempts :: nat
  uri_id :: jsval
  saved_id :: jsval
  ngioCore :: "string option"
  mode :: "string option"
  id_prop :: jsval
  user :: jsval
  passport_url :: jsval
  remember :: bool
  expired :: bool
  localStorage :: "string \<rightharpoonup> string"
  pending :: "call list"
  trace :: "event list"

type_synonym result = "(error \<times> state) + state"

text \<open>The state a call leaves behind, whether it returned or threw.\<close>

fun final :: "result \<Rightarrow> state" where
  "final (Inl (e, w)) = w"
| "final (Inr w) = w"

fun returns :: "result \<Rightarrow> bool" where
  "returns (Inl x) = False"
| "returns (Inr w) = True"

text \<open>
  Modelled from the spec: the public properties \<open>id\<close>, \<open>user\<close>, \<open>passport_url\<close>,
  \<open>remember\<close> and \<open>expired\<close> are declared outside the session template; a new session
  has them \<open>null\<close> and \<open>false\<close>. The private fields are set by the field initialisers
  of the class, \<open>lastUpdate\<close> thirty seconds before the time of construction.
\<close>

definition new_Session :: "string option \<Rightarrow> int \<Rightarrow> (string \<rightharpoonup> string) \<Rightarrow> state" where
  "new_Session core now store =
     \<lparr> status = SESSION_UNINITIALIZED, lastStatus = None, statusChanged = False,
       lastUpdate = now - 30000, canUpdate = True, priv_mode = ''expired'',
       totalAttempts = 0, maxAttempts = 5, uri_id = JNull, saved_id = JNull,
       ngioCore = core, mode = None, id_prop = JNull, user = JNull,
       passport_url = JNull, remember = False, expired = False,
       localStorage = store, pending = [], trace = [] \<rparr>"

subsection \<open>Storage\<close>

text \<open>
  The browser's \<open>localStorage\<close>: keys and values are strings, \<open>getItem\<close> gives
  \<open>null\<close> for a key never set, and \<open>setItem\<close> converts its key and its value to
  strings, so that storing \<open>null\<close> stores the string \<open>"null"\<close>.
\<close>

definition storageKey :: "state \<Rightarrow> jsval" where
  "storageKey w =
     (case ngioCore w of
        Some appID \<Rightarrow> JStr (''_ngio_'' @ appID @ ''_session_'')
      | None \<Rightarrow> JNull)"

definition getItem :: "state \<Rightarrow> jsval \<Rightarrow> jsval" where
  "getItem w k = (case localStorage w (js_ToString k) of None \<Rightarrow> JNull | Some s \<Rightarrow> JStr s)"

definition setItem :: "jsval \<Rightarrow> jsval \<Rightarrow> state \<Rightarrow> state" where
  "setItem k v w = w\<lparr>localStorage := (localStorage w)(js_ToString k \<mapsto> js_ToString v)\<rparr>"

subsection \<open>Methods\<close>

definition resetSession :: "state \<Rightarrow> state" where
  "resetSession w =
     setItem (storageKey w) JNull
       (w\<lparr>uri_id := JNull, saved_id := JNull, remember := False, user := JNull,
          expired := False\<rparr>)"

definition openLoginPage :: "state \<Rightarrow> state" where
  "openLoginPage w =
     (if \<not> truthy (passport_url w) then w\<lparr>trace := trace w @ [ConsoleWarn]\<rparr>
      else w\<lparr>status := WAITING_FOR_USER, mode := Some ''check'',
             trace := trace w @ [WindowOpen (passport_url w)]\<rparr>)"

definition endSession :: "bool \<Rightarrow> state \<Rightarrow> result" where
  "endSession cb w =
     (let w1 = w\<lparr>canUpdate := False\<rparr> in
      case ngioCore w1 of
        None \<Rightarrow> Inl (TypeError, w1)
      | Some appID \<Rightarrow>
          Inr (w1\<lparr>pending := pending w1 @
                   [Call [App_endSession, App_startSession] (OnEndThenStart cb)]\<rparr>))"

definition logOut :: "bool \<Rightarrow> state \<Rightarrow> result" where
  "logOut cb w = endSession cb (w\<lparr>mode := Some ''wait''\<rparr>)"

definition cancelLogin :: "SessionState option \<Rightarrow> int \<Rightarrow> state \<Rightarrow> result" where
  "cancelLogin newStatus now w =
     (case endSession False w of
        Inl x \<Rightarrow> Inl x
      | Inr w1 \<Rightarrow>
          Inr ((resetSession w1)
                 \<lparr>id_prop := JNull,
                  status := (case newStatus of None \<Rightarrow> LOGIN_CANCELLED | Some s \<Rightarrow> s),
                  totalAttempts := 0,
                  priv_mode := ''new'',
                  lastUpdate := now - 30000\<rparr>))"

definition startSession :: "state \<Rightarrow> result" where
  "startSession w =
     (let w1 = (resetSession (w\<lparr>canUpdate := False\<rparr>))\<lparr>status := WAITING_FOR_SERVER\<rparr> in
      case ngioCore w1 of
        None \<Rightarrow> Inl (TypeError, w1)
      | Some appID \<Rightarrow>
          Inr (w1\<lparr>pending := pending w1 @ [Call [App_startSession] OnStartSession]\<rparr>))"

definition checkSession :: "state \<Rightarrow> result" where
  "checkSession w =
     (let w1 = w\<lparr>canUpdate := False\<rparr> in
      case ngioCore w1 of
        None \<Rightarrow> Inl (TypeError, w1)
      | Some appID \<Rightarrow>
          Inr (w1\<lparr>pending := pending w1 @ [Call [App_checkSession] OnCheckSession]\<rparr>))"

subsection \<open>update\<close>

text \<open>The four parts of \<open>update\<close>, in source order; \<open>update\<close> composes them.\<close>

definition update_notify :: "bool \<Rightarrow> state \<Rightarrow> state" where
  "update_notify cb w =
     (let w1 = w\<lparr>statusChanged := False\<rparr> in
      if lastStatus w1 \<noteq> Some (status w1) then
        (let w2 = w1\<lparr>statusChanged := True, lastStatus := Some (status w1)\<rparr> in
         if cb then w2\<lparr>trace := trace w2 @ [OnChange (status w2)]\<rparr> else w2)
      else w1)"

definition update_retry :: "state \<Rightarrow> state" where
  "update_retry w =
     (if status w = SERVER_UNAVAILABLE then
        (if totalAttempts w \<ge> maxAttempts w then w\<lparr>status := EXCEEDED_MAX_ATTEMPTS\<rparr>
         else w\<lparr>status := SESSION_UNINITIALIZED, totalAttempts := totalAttempts w + 1\<rparr>)
      else w)"

definition update_classify :: "state \<Rightarrow> state" where
  "update_classify w =
     (if status w = SESSION_UNINITIALIZED then
        (let w1 = w\<lparr>saved_id := getItem w (storageKey w)\<rparr>;
             w2 = (if truthy (uri_id w1) then w1\<lparr>id_prop := uri_id w1\<rparr>
                   else if truthy (saved_id w1) then w1\<lparr>id_prop := saved_id w1\<rparr>
                   else w1)
         in w2\<lparr>mode := Some (if truthy (id_prop w2) \<and> id_prop w2 \<noteq> JStr ''null''
                               then ''check'' else ''new'')\<rparr>)
      else w)"

definition update_dispatch :: "int \<Rightarrow> state \<Rightarrow> result" where
  "update_dispatch now w =
     (if now - lastUpdate w < 5000 then Inr w
      else
        (let w1 = w\<lparr>lastUpdate := now\<rparr> in
         if mode w1 = Some ''new'' then startSession (w1\<lparr>mode := Some ''wait''\<rparr>)
         else if mode w1 = Some ''check'' then checkSession (w1\<lparr>mode := Some ''wait''\<rparr>)
         else Inr w1))"

definition update :: "bool \<Rightarrow> int \<Rightarrow> state \<Rightarrow> result" where
  "update cb now w =
     (let w1 = update_notify cb w in
      if \<not> canUpdate w1 \<or> mode w1 = Some ''wait'' then Inr w1
      else if ngioCore w1 = None then
        Inr (w1\<lparr>trace := trace w1 @ [ConsoleError], canUpdate := False\<rparr>)
      else update_dispatch now (update_classify (update_retry w1)))"

subsection \<open>Completion handlers\<close>

text \<open>
  \<open>on_StartSession\<close>, \<open>on_CheckSession\<close> and \<open>on_EndSession\<close> are the methods
  \<open>_onStartSession\<close>, \<open>_onCheckSession\<close> and \<open>_onEndSession\<close>, which the calls arm
  as \<open>this.#onStartSession\<close> and so on (\<open>this._onStartSession\<close> in the older template).
\<close>

text \<open>
  The test of the scan loop:
  \<open>result[i] && result[i].__object && result[i].__object == "App.startSession"\<close>.
\<close>

definition is_startSession_record :: "jsval \<Rightarrow> bool" where
  "is_startSession_record x =
     (truthy x \<and>
      (case get_prop x ''__object'' of
         Inr t \<Rightarrow> truthy t \<and> looseEq_startSession t
       | Inl e \<Rightarrow> False))"

text \<open>The scan of an array result for the first record tagged as the start-session result.\<close>

fun scan_startSession :: "jsval list \<Rightarrow> jsval option" where
  "scan_startSession [] = None"
| "scan_startSession (x # xs) =
     (if is_startSession_record x then Some x else scan_startSession xs)"

definition select_result :: "jsval \<Rightarrow> jsval" where
  "select_result r =
     (case r of
        JArr xs \<Rightarrow> (case scan_startSession xs of Some x \<Rightarrow> x | None \<Rightarrow> JArr xs)
      | _ \<Rightarrow> r)"

text \<open>
  The reads \<open>result.session.id\<close> and \<open>result.session.passport_url\<close> of a successful
  start-session response.
\<close>

definition extract_session :: "jsval \<Rightarrow> error + (jsval \<times> jsval)" where
  "extract_session response =
     (case get_prop response ''result'' of
        Inl e \<Rightarrow> Inl e
      | Inr r \<Rightarrow>
          (case get_prop (select_result r) ''session'' of
             Inl e \<Rightarrow> Inl e
           | Inr s \<Rightarrow>
               (case get_prop s ''id'' of
                  Inl e \<Rightarrow> Inl e
                | Inr i \<Rightarrow>
                    (case get_prop s ''passport_url'' of
                       Inl e \<Rightarrow> Inl e
                     | Inr p \<Rightarrow> Inr (i, p)))))"

definition on_StartSession :: "jsval \<Rightarrow> state \<Rightarrow> result" where
  "on_StartSession response w =
     (case get_prop response ''success'' of
        Inl e \<Rightarrow> Inl (e, w)
      | Inr s \<Rightarrow>
          if s = JBool True then
            (case extract_session response of
               Inl e \<Rightarrow> Inl (e, w)
             | Inr (i, p) \<Rightarrow>
                 Inr (w\<lparr>id_prop := i, passport_url := p, status := LOGIN_REQUIRED,
                        mode := Some ''wait'', canUpdate := True\<rparr>))
          else Inr (w\<lparr>status := SERVER_UNAVAILABLE, canUpdate := True\<rparr>))"

definition on_CheckSession_failed :: "jsval \<Rightarrow> int \<Rightarrow> state \<Rightarrow> result" where
  "on_CheckSession_failed r now w =
     (let w1 = w\<lparr>id_prop := JNull\<rparr> in
      case get_prop r ''error'' of
        Inl e \<Rightarrow> Inl (e, w1)
      | Inr er \<Rightarrow>
          (case get_prop er ''code'' of
             Inl e \<Rightarrow> Inl (e, w1)
           | Inr code \<Rightarrow>
               (case cancelLogin
                       (Some (if code = JNum 111 then LOGIN_CANCELLED else LOGIN_FAILED))
                       now w1 of
                  Inl x \<Rightarrow> Inl x
                | Inr w2 \<Rightarrow> Inr (w2\<lparr>canUpdate := True\<rparr>))))"

definition on_CheckSession_ok :: "jsval \<Rightarrow> state \<Rightarrow> result" where
  "on_CheckSession_ok r w =
     (case get_prop r ''session'' of
        Inl e \<Rightarrow> Inl (e, w)
      | Inr s \<Rightarrow>
          (case get_prop s ''expired'' of
             Inl e \<Rightarrow> Inl (e, w)
           | Inr ex \<Rightarrow>
               if truthy ex then
                 Inr ((resetSession w)
                        \<lparr>id_prop := JNull, status := SESSION_UNINITIALIZED,
                         canUpdate := True\<rparr>)
               else
                 (case get_prop s ''user'' of
                    Inl e \<Rightarrow> Inl (e, w)
                  | Inr u \<Rightarrow>
                      if u \<noteq> JNull then
                        (let w1 = w\<lparr>user := u, status := LOGIN_SUCCESSFUL,
                                    mode := Some ''valid''\<rparr> in
                         case get_prop s ''remember'' of
                           Inl e \<Rightarrow> Inl (e, w1)
                         | Inr rm \<Rightarrow>
                             if truthy rm then
                               Inr ((setItem (storageKey w1) (id_prop w1)
                                       (w1\<lparr>saved_id := id_prop w1, remember := True\<rparr>))
                                      \<lparr>canUpdate := True\<rparr>)
                             else Inr (w1\<lparr>canUpdate := True\<rparr>))
                      else Inr (w\<lparr>mode := Some ''check'', canUpdate := True\<rparr>))))"

definition on_CheckSession :: "jsval \<Rightarrow> int \<Rightarrow> state \<Rightarrow> result" where
  "on_CheckSession response now w =
     (case get_prop response ''success'' of
        Inl e \<Rightarrow> Inl (e, w)
      | Inr s \<Rightarrow>
          if s = JBool True then
            (case get_prop response ''result'' of
               Inl e \<Rightarrow> Inl (e, w)
             | Inr r \<Rightarrow>
                 (case get_prop r ''success'' of
                    Inl e \<Rightarrow> Inl (e, w)
                  | Inr rs \<Rightarrow>
                      if \<not> truthy rs then on_CheckSession_failed r now w
                      else on_CheckSession_ok r w))
          else Inr (w\<lparr>status := SERVER_UNAVAILABLE, canUpdate := True\<rparr>))"

definition on_EndSession :: "jsval \<Rightarrow> state \<Rightarrow> state" where
  "on_EndSession response w =
     (resetSession w)
       \<lparr>id_prop := JNull, user := JNull, passport_url := JNull, mode := Some ''new'',
        status := USER_LOGGED_OUT, canUpdate := True\<rparr>"

text \<open>The callback \<open>endSession\<close> hands to \<open>executeQueue\<close>.\<close>

definition on_EndThenStart :: "bool \<Rightarrow> jsval \<Rightarrow> state \<Rightarrow> result" where
  "on_EndThenStart cb response w =
     (case on_StartSession response (on_EndSession response w) of
        Inl x \<Rightarrow> Inl x
      | Inr w2 \<Rightarrow> Inr (if cb then w2\<lparr>trace := trace w2 @ [OnComplete]\<rparr> else w2))"

subsection \<open>Runs\<close>

text \<open>
  The service core answers an outstanding call: the call leaves \<open>pending\<close> and its
  handler runs on the response. Calls may be answered in any order.
\<close>

definition complete :: "nat \<Rightarrow> jsval \<Rightarrow> int \<Rightarrow> state \<Rightarrow> result" where
  "complete i response now w =
     (if i < length (pending w) then
        (let w1 = w\<lparr>pending := take i (pending w) @ drop (Suc i) (pending w)\<rparr> in
         case pending w ! i of
           Call cs OnStartSession \<Rightarrow> on_StartSession response w1
         | Call cs OnCheckSession \<Rightarrow> on_CheckSession response now w1
         | Call cs (OnEndThenStart cb) \<Rightarrow> on_EndThenStart cb response w1)
      else Inr w)"

datatype op =
    Update bool int
  | StartSession
  | CheckSession
  | EndSession bool
  | LogOut bool
  | CancelLogin "SessionState option" int
  | OpenLoginPage
  | Complete nat jsval int

fun step :: "op \<Rightarrow> state \<Rightarrow> result" where
  "step (Update cb now) w = update cb now w"
| "step StartSession w = startSession w"
| "step CheckSession w = checkSession w"
| "step (EndSession cb) w = endSession cb w"
| "step (LogOut cb) w = logOut cb w"
| "step (CancelLogin ns now) w = cancelLogin ns now w"
| "step OpenLoginPage w = Inr (openLoginPage w)"
| "step (Complete i response now) w = complete i response now w"

fun run :: "op list \<Rightarrow> state \<Rightarrow> state" where
  "run [] w = w"
| "run (x # xs) w = run xs (final (step x w))"

section \<open>Observations on runs\<close>

text \<open>How often the \<open>update\<close> callback has been invoked so far.\<close>

fun is_OnChange :: "event \<Rightarrow> bool" where
  "is_OnChange (OnChange s) = True"
| "is_OnChange e = False"

definition onChange_calls :: "state \<Rightarrow> nat" where
  "onChange_calls w = length (filter is_OnChange (trace w))"

fun is_Complete :: "op \<Rightarrow> bool" where
  "is_Complete (Complete i response now) = True"
| "is_Complete x = False"

text \<open>A value that is a record with the field \<open>k\<close>.\<close>

fun has_field :: "jsval \<Rightarrow> string \<Rightarrow> bool" where
  "has_field (JObj kvs) k = (map_of kvs k \<noteq> None)"
| "has_field v k = False"

text \<open>
  A response that succeeded at the call level and whose result reports failure:
  \<open>response.success === true\<close> and \<open>!response.result.success\<close>, the branch of
  \<open>_onCheckSession\<close> that calls \<open>cancelLogin\<close>.
\<close>

definition reports_failure :: "jsval \<Rightarrow> bool" where
  "reports_failure response =
     (get_prop response ''success'' = Inr (JBool True) \<and>
      (case get_prop response ''result'' of
         Inl e \<Rightarrow> False
       | Inr r \<Rightarrow> (case get_prop r ''success'' of Inl e \<Rightarrow> False | Inr rs \<Rightarrow> \<not> truthy rs)))"

fun handler_of :: "call \<Rightarrow> handler" where
  "handler_of (Call cs h) = h"

text \<open>
  The steps that run the body of \<open>cancelLogin\<close>: a direct call, and the completion of a
  check-session call whose response reports failure.
\<close>

fun calls_cancelLogin :: "op \<Rightarrow> state \<Rightarrow> bool" where
  "calls_cancelLogin (CancelLogin ns now) w = True"
| "calls_cancelLogin (Complete i response now) w =
     (i < length (pending w) \<and> handler_of (pending w ! i) = OnCheckSession \<and>
      reports_failure response)"
| "calls_cancelLogin x w = False"

fun may_cancel :: "op \<Rightarrow> bool" where
  "may_cancel (CancelLogin ns now) = True"
| "may_cancel (Complete i response now) = reports_failure response"
| "may_cancel x = False"

subsection \<open>Sample sessions and responses\<close>

definition fresh_session :: state where
  "fresh_session = new_Session (Some ''demo'') 0 Map.empty"

definition call_failed :: jsval where
  "call_failed = JObj [(''success'', JBool False)]"

definition start_ok :: jsval where
  "start_ok =
     JObj [(''success'', JBool True),
           (''result'', JObj [(''__object'', JStr ''App.startSession''),
                              (''session'', JObj [(''id'', JStr ''abc''),
                                                  (''passport_url'', JStr ''https://login'')])])]"

definition batch_ok :: jsval where
  "batch_ok =
     JObj [(''success'', JBool True),
           (''result'',
              JArr [JObj [(''__object'', JStr ''App.endSession''), (''success'', JBool True)],
                    JObj [(''__object'', JStr ''App.startSession''),
                          (''session'', JObj [(''id'', JStr ''xyz''),
                                              (''passport_url'', JStr ''https://login2'')])]])]"

definition untagged_array :: jsval where
  "untagged_array =
     JObj [(''success'', JBool True),
           (''result'',
              JArr [JObj [(''__object'', JStr ''App.endSession''), (''success'', JBool True)]])]"

definition check_failed :: "int \<Rightarrow> jsval" where
  "check_failed code =
     JObj [(''success'', JBool True),
           (''result'', JObj [(''success'', JBool False),
                              (''error'', JObj [(''code'', JNum code)])])]"

definition check_session :: "bool \<Rightarrow> jsval \<Rightarrow> bool \<Rightarrow> jsval" where
  "check_session ex u rm =
     JObj [(''success'', JBool True),
           (''result'', JObj [(''success'', JBool True),
                              (''session'', JObj [(''expired'', JBool ex), (''user'', u),
                                                  (''remember'', JBool rm)])])]"

definition some_user :: jsval where
  "some_user = JObj [(''name'', JStr ''bob'')]"

text \<open>
  A fresh session asks for a session, the user opens the login page, and the next
  \<open>update\<close> ten seconds in sends the check.
\<close>

definition login_ops :: "op list" where
  "login_ops = [Update True 0, Complete 0 start_ok 100, OpenLoginPage, Update True 10000]"

text \<open>
  One round of logging out against a server that is down: the batch fails, \<open>update\<close>
  retries with a new start-session call, and that fails too.
\<close>

definition retry_cycle :: "int \<Rightarrow> op list" where
  "retry_cycle t =
     [LogOut False, Complete 0 call_failed t, Update False (t + 10),
      Complete 0 call_failed (t + 20)]"

text \<open>
  Five rounds of \<open>retry_cycle\<close> bring the retry counter to its ceiling; a sixth failed
  log-out leaves the session at \<open>SERVER_UNAVAILABLE\<close> with \<open>mode = "new"\<close>.
\<close>

definition exhausted_ops :: "op list" where
  "exhausted_ops =
     retry_cycle 0 @ retry_cycle 10000 @ retry_cycle 20000 @ retry_cycle 30000 @
     retry_cycle 40000 @ [LogOut False, Complete 0 call_failed 50000]"

text \<open>
  A failed log-out, one automatic retry that obtains a session, the login page and the
  check that \<open>update\<close> sends for it.
\<close>

definition failed_login_ops :: "op list" where
  "failed_login_ops =
     [LogOut False, Complete 0 call_failed 100, Update True 200, Complete 0 start_ok 300,
      OpenLoginPage, Update True 6000]"

section \<open>What each part of the program changes\<close>

lemma notify_same:
  "status (update_notify cb w) = status w"
  "lastUpdate (update_notify cb w) = lastUpdate w"
  "canUpdate (update_notify cb w) = canUpdate w"
  "priv_mode (update_notify cb w) = priv_mode w"
  "totalAttempts (update_notify cb w) = totalAttempts w"
  "maxAttempts (update_notify cb w) = maxAttempts w"
  "uri_id (update_notify cb w) = uri_id w"
  "saved_id (update_notify cb w) = saved_id w"
  "ngioCore (update_notify cb w) = ngioCore w"
  "mode (update_notify cb w) = mode w"
  "id_prop (update_notify cb w) = id_prop w"
  "user (update_notify cb w) = user w"
  "passport_url (update_notify cb w) = passport_url w"
  "remember (update_notify cb w) = remember w"
  "expired (update_notify cb w) = expired w"
  "localStorage (update_notify cb w) = localStorage w"
  "pending (update_notify cb w) = pending w"
  by (simp_all add: update_notify_def Let_def)

lemma notify_changed:
  "statusChanged (update_notify cb w) = (lastStatus w \<noteq> Some (status w))"
  "lastStatus (update_notify cb w) = Some (status w)"
  "trace (update_notify cb w) =
     trace w @ (if cb \<and> lastStatus w \<noteq> Some (status w) then [OnChange (status w)] else [])"
  by (simp_all add: update_notify_def Let_def)

lemma retry_same:
  "lastStatus (update_retry w) = lastStatus w"
  "statusChanged (update_retry w) = statusChanged w"
  "lastUpdate (update_retry w) = lastUpdate w"
  "canUpdate (update_retry w) = canUpdate w"
  "priv_mode (update_retry w) = priv_mode w"
  "maxAttempts (update_retry w) = maxAttempts w"
  "uri_id (update_retry w) = uri_id w"
  "saved_id (update_retry w) = saved_id w"
  "ngioCore (update_retry w) = ngioCore w"
  "mode (update_retry w) = mode w"
  "id_prop (update_retry w) = id_prop w"
  "user (update_retry w) = user w"
  "passport_url (update_retry w) = passport_url w"
  "remember (update_retry w) = remember w"
  "expired (update_retry w) = expired w"
  "localStorage (update_retry w) = localStorage w"
  "pending (update_retry w) = pending w"
  "trace (update_retry w) = trace w"
  by (simp_all add: update_retry_def)

lemma retry_changed:
  "status (update_retry w) =
     (if status w = SERVER_UNAVAILABLE then
        (if maxAttempts w \<le> totalAttempts w then EXCEEDED_MAX_ATTEMPTS
         else SESSION_UNINITIALIZED)
      else status w)"
  "totalAttempts (update_retry w) =
     (if status w = SERVER_UNAVAILABLE \<and> totalAttempts w < maxAttempts w
      then totalAttempts w + 1 else totalAttempts w)"
  by (simp_all add: update_retry_def)

lemma classify_same:
  "status (update_classify w) = status w"
  "lastStatus (update_classify w) = lastStatus w"
  "statusChanged (update_classify w) = statusChanged w"
  "lastUpdate (update_classify w) = lastUpdate w"
  "canUpdate (update_classify w) = canUpdate w"
  "priv_mode (update_classify w) = priv_mode w"
  "totalAttempts (update_classify w) = totalAttempts w"
  "maxAttempts (update_classify w) = maxAttempts w"
  "uri_id (update_classify w) = uri_id w"
  "ngioCore (update_classify w) = ngioCore w"
  "user (update_classify w) = user w"
  "passport_url (update_classify w) = passport_url w"
  "remember (update_classify w) = remember w"
  "expired (update_classify w) = expired w"
  "localStorage (update_classify w) = localStorage w"
  "pending (update_classify w) = pending w"
  "trace (update_classify w) = trace w"
  by (simp_all add: update_classify_def Let_def)

lemma classify_skipped:
  "status w \<noteq> SESSION_UNINITIALIZED \<Longrightarrow> update_classify w = w"
  by (simp add: update_classify_def)

lemma classify_changed:
  "status w = SESSION_UNINITIALIZED \<Longrightarrow>
     saved_id (update_classify w) = getItem w (storageKey w)"
  "status w = SESSION_UNINITIALIZED \<Longrightarrow>
     id_prop (update_classify w) =
       (if truthy (uri_id w) then uri_id w
        else if truthy (getItem w (storageKey w)) then getItem w (storageKey w)
        else id_prop w)"
  "status w = SESSION_UNINITIALIZED \<Longrightarrow>
     mode (update_classify w) =
       Some (if truthy (id_prop (update_classify w)) \<and>
                id_prop (update_classify w) \<noteq> JStr ''null''
             then ''check'' else ''new'')"
  by (simp_all add: update_classify_def Let_def)

lemma reset_same:
  "status (resetSession w) = status w"
  "lastStatus (resetSession w) = lastStatus w"
  "statusChanged (resetSession w) = statusChanged w"
  "lastUpdate (resetSession w) = lastUpdate w"
  "canUpdate (resetSession w) = canUpdate w"
  "priv_mode (resetSession w) = priv_mode w"
  "totalAttempts (resetSession w) = totalAttempts w"
  "maxAttempts (resetSession w) = maxAttempts w"
  "ngioCore (resetSession w) = ngioCore w"
  "mode (resetSession w) = mode w"
  "id_prop (resetSession w) = id_prop w"
  "passport_url (resetSession w) = passport_url w"
  "pending (resetSession w) = pending w"
  "trace (resetSession w) = trace w"
  by (simp_all add: resetSession_def setItem_def)

lemma reset_changed:
  "uri_id (resetSession w) = JNull"
  "saved_id (resetSession w) = JNull"
  "remember (resetSession w) = False"
  "user (resetSession w) = JNull"
  "expired (resetSession w) = False"
  "localStorage (resetSession w) = (localStorage w)(js_ToString (storageKey w) \<mapsto> ''null'')"
  by (simp_all add: resetSession_def setItem_def)

lemmas phase_simps =
  notify_same notify_changed retry_same retry_changed classify_same reset_same reset_changed

subsection \<open>The calls with a service core attached\<close>

lemma startSession_core:
  "ngioCore w = Some a \<Longrightarrow>
   startSession w =
     Inr ((resetSession (w\<lparr>canUpdate := False\<rparr>))
            \<lparr>status := WAITING_FOR_SERVER,
             pending := pending w @ [Call [App_startSession] OnStartSession]\<rparr>)"
  by (simp add: startSession_def Let_def reset_same)

lemma checkSession_core:
  "ngioCore w = Some a \<Longrightarrow>
   checkSession w =
     Inr (w\<lparr>canUpdate := False,
            pending := pending w @ [Call [App_checkSession] OnCheckSession]\<rparr>)"
  by (simp add: checkSession_def Let_def)

lemma endSession_core:
  "ngioCore w = Some a \<Longrightarrow>
   endSession cb w =
     Inr (w\<lparr>canUpdate := False,
            pending := pending w @
              [Call [App_endSession, App_startSession] (OnEndThenStart cb)]\<rparr>)"
  by (simp add: endSession_def Let_def)

lemma dispatch_core:
  "ngioCore w = Some a \<Longrightarrow>
   update_dispatch now w =
     Inr (if now - lastUpdate w < 5000 then w
          else if mode w = Some ''new'' then
            (resetSession (w\<lparr>lastUpdate := now, mode := Some ''wait'', canUpdate := False\<rparr>))
              \<lparr>status := WAITING_FOR_SERVER,
               pending := pending w @ [Call [App_startSession] OnStartSession]\<rparr>
          else if mode w = Some ''check'' then
            w\<lparr>lastUpdate := now, mode := Some ''wait'', canUpdate := False,
              pending := pending w @ [Call [App_checkSession] OnCheckSession]\<rparr>
          else w\<lparr>lastUpdate := now\<rparr>)"
  by (simp add: update_dispatch_def Let_def startSession_core checkSession_core)

subsection \<open>The six ways through update\<close>

lemma update_blocked:
  "\<not> canUpdate w \<or> mode w = Some ''wait'' \<Longrightarrow> update cb now w = Inr (update_notify cb w)"
  by (simp add: update_def Let_def notify_same)

lemma update_no_core:
  "canUpdate w \<Longrightarrow> mode w \<noteq> Some ''wait'' \<Longrightarrow> ngioCore w = None \<Longrightarrow>
   update cb now w =
     Inr ((update_notify cb w)
            \<lparr>trace := trace (update_notify cb w) @ [ConsoleError], canUpdate := False\<rparr>)"
  by (simp add: update_def Let_def notify_same)

lemma update_core:
  "canUpdate w \<Longrightarrow> mode w \<noteq> Some ''wait'' \<Longrightarrow> ngioCore w = Some a \<Longrightarrow>
   update cb now w = update_dispatch now (update_classify (update_retry (update_notify cb w)))"
  by (simp add: update_def Let_def notify_same)

lemma update_cases:
  obtains
    (blocked) "\<not> canUpdate w \<or> mode w = Some ''wait''"
      "update cb now w = Inr (update_notify cb w)"
  | (no_core) "canUpdate w" "mode w \<noteq> Some ''wait''" "ngioCore w = None"
      "update cb now w =
         Inr ((update_notify cb w)
                \<lparr>trace := trace (update_notify cb w) @ [ConsoleError], canUpdate := False\<rparr>)"
  | (limited) a where "canUpdate w" "mode w \<noteq> Some ''wait''" "ngioCore w = Some a"
      "now - lastUpdate w < 5000"
      "update cb now w = Inr (update_classify (update_retry (update_notify cb w)))"
  | (start) a where "canUpdate w" "mode w \<noteq> Some ''wait''" "ngioCore w = Some a"
      "5000 \<le> now - lastUpdate w"
      "mode (update_classify (update_retry (update_notify cb w))) = Some ''new''"
      "update cb now w =
         Inr ((resetSession ((update_classify (update_retry (update_notify cb w)))
                  \<lparr>lastUpdate := now, mode := Some ''wait'', canUpdate := False\<rparr>))
                \<lparr>status := WAITING_FOR_SERVER,
                 pending := pending w @ [Call [App_startSession] OnStartSession]\<rparr>)"
  | (check) a where "canUpdate w" "mode w \<noteq> Some ''wait''" "ngioCore w = Some a"
      "5000 \<le> now - lastUpdate w"
      "mode (update_classify (update_retry (update_notify cb w))) = Some ''check''"
      "update cb now w =
         Inr ((update_classify (update_retry (update_notify cb w)))
                \<lparr>lastUpdate := now, mode := Some ''wait'', canUpdate := False,
                 pending := pending w @ [Call [App_checkSession] OnCheckSession]\<rparr>)"
  | (idle) a where "canUpdate w" "mode w \<noteq> Some ''wait''" "ngioCore w = Some a"
      "5000 \<le> now - lastUpdate w"
      "mode (update_classify (update_retry (update_notify cb w))) \<noteq> Some ''new''"
      "mode (update_classify (update_retry (update_notify cb w))) \<noteq> Some ''check''"
      "update cb now w =
         Inr ((update_classify (update_retry (update_notify cb w)))\<lparr>lastUpdate := now\<rparr>)"
proof (cases "\<not> canUpdate w \<or> mode w = Some ''wait''")
  case True
  then show ?thesis using blocked update_blocked by blast
next
  case guard: False
  show ?thesis
  proof (cases "ngioCore w")
    case None
    then show ?thesis using guard no_core update_no_core by blast
  next
    case (Some a)
    let ?w3 = "update_classify (update_retry (update_notify cb w))"
    have core3: "ngioCore ?w3 = Some a"
      by (simp add: classify_same retry_same notify_same Some)
    have lu: "lastUpdate ?w3 = lastUpdate w" and pd: "pending ?w3 = pending w"
      by (simp_all add: classify_same retry_same notify_same)
    have u: "update cb now w = update_dispatch now ?w3"
      using guard Some by (simp add: update_core)
    note d = dispatch_core [OF core3, of now]
    consider "now - lastUpdate w < 5000"
      | "5000 \<le> now - lastUpdate w" "mode ?w3 = Some ''new''"
      | "5000 \<le> now - lastUpdate w" "mode ?w3 = Some ''check''"
      | "5000 \<le> now - lastUpdate w" "mode ?w3 \<noteq> Some ''new''" "mode ?w3 \<noteq> Some ''check''"
      by fastforce
    then show ?thesis
    proof cases
      case 1
      then show ?thesis using limited [of a] guard Some u d lu by simp
    next
      case 2
      then show ?thesis using start [of a] guard Some u d lu pd by simp
    next
      case 3
      then show ?thesis using check [of a] guard Some u d lu pd by simp
    next
      case 4
      then show ?thesis using idle [of a] guard Some u d lu by simp
    qed
  qed
qed

text \<open>The definitions a run on concrete inputs is evaluated with.\<close>

lemmas run_defs = fresh_session_def new_Session_def call_failed_def start_ok_def batch_ok_def
  untagged_array_def check_failed_def check_session_def some_user_def login_ops_def
  retry_cycle_def exhausted_ops_def failed_login_ops_def update_def update_notify_def
  update_retry_def update_classify_def update_dispatch_def startSession_def checkSession_def endSession_def logOut_def
  cancelLogin_def resetSession_def setItem_def getItem_def storageKey_def openLoginPage_def
  complete_def on_StartSession_def on_CheckSession_def on_CheckSession_failed_def
  on_CheckSession_ok_def on_EndSession_def on_EndThenStart_def extract_session_def
  select_result_def is_startSession_record_def reports_failure_def onChange_calls_def Let_def

section \<open>C3: statusChanged and the onChange callback\<close>

lemma update_returns: "returns (update cb now w)"
  by (cases rule: update_cases [of w cb now]) simp_all

lemma update_statusChanged:
  "statusChanged (final (update cb now w)) = (lastStatus w \<noteq> Some (status w))"
  by (cases rule: update_cases [of w cb now]) (simp_all add: phase_simps)

lemma update_lastStatus: "lastStatus (final (update cb now w)) = Some (status w)"
  by (cases rule: update_cases [of w cb now]) (simp_all add: phase_simps)

lemma update_onChange:
  "onChange_calls (final (update cb now w)) =
     onChange_calls w + (if cb \<and> lastStatus w \<noteq> Some (status w) then 1 else 0)"
  by (cases rule: update_cases [of w cb now]) (simp_all add: phase_simps onChange_calls_def)

text \<open>
  C3. Every call of \<open>update\<close> returns, and recomputes \<open>statusChanged\<close> once: it is
  true exactly when the status on entry differs from \<open>lastStatus\<close>, the status recorded
  by the previous call, and \<open>lastStatus\<close> then records the status on entry. The callback
  is invoked once when a callback was passed and \<open>statusChanged\<close> is true, and not at
  all otherwise. Hence on the next \<open>update\<close>, \<open>statusChanged\<close> is true exactly when the
  status has moved since the entry of this one.
\<close>

theorem C3_statusChanged:
  "returns (update cb now w)
   \<and> statusChanged (final (update cb now w)) = (lastStatus w \<noteq> Some (status w))
   \<and> lastStatus (final (update cb now w)) = Some (status w)
   \<and> onChange_calls (final (update cb now w)) =
       onChange_calls w + (if cb \<and> statusChanged (final (update cb now w)) then 1 else 0)
   \<and> statusChanged (final (update cb2 now2 (final (update cb now w)))) =
       (status (final (update cb now w)) \<noteq> status w)"
proof -
  let ?w1 = "final (update cb now w)"
  have "statusChanged (final (update cb2 now2 ?w1)) = (lastStatus ?w1 \<noteq> Some (status ?w1))"
    by (rule update_statusChanged)
  also have "\<dots> = (status ?w1 \<noteq> status w)"
    by (auto simp: update_lastStatus)
  finally show ?thesis
    by (simp add: update_returns update_statusChanged update_lastStatus update_onChange)
qed

text \<open>
  C3 on a fresh session: the first call reports a change and invokes the callback once;
  it sends the start-session call, so the second call reports a change too
  (\<open>WAITING_FOR_SERVER\<close>), and the third reports none.
\<close>

theorem C3_statusChanged_witness:
  "statusChanged (final (update True 0 fresh_session))
   \<and> onChange_calls (final (update True 0 fresh_session)) = 1
   \<and> status (final (update True 0 fresh_session)) = WAITING_FOR_SERVER
   \<and> statusChanged (final (update True 10 (final (update True 0 fresh_session))))
   \<and> \<not> statusChanged
         (final (update True 20 (final (update True 10 (final (update True 0 fresh_session))))))"
proof -
  have s0: "lastStatus fresh_session = None" "status fresh_session = SESSION_UNINITIALIZED"
    "onChange_calls fresh_session = 0"
    by (simp_all add: fresh_session_def new_Session_def onChange_calls_def)
  have s1: "status (final (update True 0 fresh_session)) = WAITING_FOR_SERVER"
    by (simp add: run_defs)
  have s2: "status (final (update True 10 (final (update True 0 fresh_session)))) = WAITING_FOR_SERVER"
    by (simp add: run_defs)
  show ?thesis
    using C3_statusChanged [of True 0 fresh_session True 10]
      C3_statusChanged [of True 10 "final (update True 0 fresh_session)" True 20]
      s0 s1 s2
    by simp
qed

section \<open>C1: the canUpdate guard\<close>

lemma update_pending_blocked:
  "\<not> canUpdate w \<Longrightarrow> pending (final (update cb now w)) = pending w"
  by (simp add: update_blocked notify_same)

lemma update_pending_length:
  "length (pending (final (update cb now w))) \<le> length (pending w) + 1"
  by (cases rule: update_cases [of w cb now]) (simp_all add: phase_simps)

lemma step_dispatch_blocks:
  assumes "\<not> is_Complete x" "pending (final (step x w)) \<noteq> pending w"
  shows "\<not> canUpdate (final (step x w))"
proof (cases x)
  case (Update cb now)
  show ?thesis
    using assms(2) unfolding Update step.simps
    by (cases rule: update_cases [of w cb now]) (simp_all add: phase_simps)
next
  case StartSession
  then show ?thesis
    by (simp add: startSession_def Let_def reset_same split: option.splits)
next
  case CheckSession
  then show ?thesis
    by (simp add: checkSession_def Let_def split: option.splits)
next
  case (EndSession cb)
  then show ?thesis
    by (simp add: endSession_def Let_def split: option.splits)
next
  case (LogOut cb)
  then show ?thesis
    by (simp add: logOut_def endSession_def Let_def split: option.splits)
next
  case (CancelLogin ns now)
  then show ?thesis
    by (simp add: cancelLogin_def endSession_def Let_def reset_same split: option.splits)
next
  case OpenLoginPage
  then show ?thesis using assms(2) by (simp add: openLoginPage_def split: if_splits)
next
  case (Complete i r now)
  then show ?thesis using assms(1) by simp
qed

lemma step_keeps_blocked:
  assumes "\<not> is_Complete x" "\<not> canUpdate w"
  shows "\<not> canUpdate (final (step x w))"
proof (cases x)
  case (Update cb now)
  then show ?thesis using assms(2) by (simp add: update_blocked notify_same)
next
  case StartSession
  then show ?thesis
    by (simp add: startSession_def Let_def reset_same split: option.splits)
next
  case CheckSession
  then show ?thesis
    by (simp add: checkSession_def Let_def split: option.splits)
next
  case (EndSession cb)
  then show ?thesis
    by (simp add: endSession_def Let_def split: option.splits)
next
  case (LogOut cb)
  then show ?thesis
    by (simp add: logOut_def endSession_def Let_def split: option.splits)
next
  case (CancelLogin ns now)
  then show ?thesis
    by (simp add: cancelLogin_def endSession_def Let_def reset_same split: option.splits)
next
  case OpenLoginPage
  then show ?thesis using assms(2) by (simp add: openLoginPage_def)
next
  case (Complete i r now)
  then show ?thesis using assms(1) by simp
qed

text \<open>
  C1, as amended. \<open>update\<close> sends no remote call while \<open>canUpdate\<close> is false, and at most
  one per invocation. Every operation other than a completion that sends a call returns
  with \<open>canUpdate\<close> false, and no such operation turns \<open>canUpdate\<close> from false to true:
  only completion handlers set it back.
\<close>

theorem C1_update_guard:
  "(\<not> canUpdate w \<longrightarrow> pending (final (update cb now w)) = pending w)
   \<and> length (pending (final (update cb now w))) \<le> length (pending w) + 1
   \<and> (\<not> is_Complete x \<and> pending (final (step x w)) \<noteq> pending w
        \<longrightarrow> \<not> canUpdate (final (step x w)))
   \<and> (\<not> is_Complete x \<and> \<not> canUpdate w \<longrightarrow> \<not> canUpdate (final (step x w)))"
  using update_pending_blocked update_pending_length step_dispatch_blocks step_keeps_blocked
  by blast

text \<open>
  C1 as stated fails. While the start-session call of \<open>update\<close> is outstanding and
  \<open>canUpdate\<close> is false, \<open>logOut\<close> sends a second call: \<open>endSession\<close> does not consult
  \<open>canUpdate\<close>. And when a check is answered with a reported failure, the handler sends
  the end-and-start batch through \<open>cancelLogin\<close> and then sets \<open>canUpdate\<close> to true while
  that batch is outstanding.
\<close>

theorem C1_counterexample:
  "\<not> canUpdate (run [Update True 0] fresh_session)
   \<and> pending (run [Update True 0] fresh_session) = [Call [App_startSession] OnStartSession]
   \<and> pending (run [Update True 0, LogOut False] fresh_session) =
       [Call [App_startSession] OnStartSession,
        Call [App_endSession, App_startSession] (OnEndThenStart False)]
   \<and> canUpdate (run (login_ops @ [Complete 0 (check_failed 111) 10100]) fresh_session)
   \<and> pending (run (login_ops @ [Complete 0 (check_failed 111) 10100]) fresh_session) =
       [Call [App_endSession, App_startSession] (OnEndThenStart False)]"
  by (simp add: run_defs)

text \<open>C1 on a fresh session whose first \<open>update\<close> has sent its call.\<close>

theorem C1_update_guard_witness:
  "\<not> canUpdate (final (update True 0 fresh_session))
   \<and> pending (final (update True 50 (final (update True 0 fresh_session)))) =
       pending (final (update True 0 fresh_session))
   \<and> pending (final (step (Update True 0) fresh_session)) \<noteq> pending fresh_session
   \<and> \<not> canUpdate (final (step (LogOut False) (final (update True 0 fresh_session))))"
proof -
  have a: "\<not> canUpdate (final (update True 0 fresh_session))"
    by (simp add: run_defs)
  have b: "pending (final (step (Update True 0) fresh_session)) \<noteq> pending fresh_session"
    by (simp add: run_defs)
  show ?thesis
    using C1_update_guard [of "final (update True 0 fresh_session)" True 50 "LogOut False"]
      C1_update_guard [of fresh_session True 0 "Update True 0"] a b
    by simp
qed

section \<open>C4: the five-second rate limit\<close>

lemma update_limited:
  "now - lastUpdate w < 5000 \<Longrightarrow>
   pending (final (update cb now w)) = pending w \<and>
   lastUpdate (final (update cb now w)) = lastUpdate w"
  by (cases rule: update_cases [of w cb now]) (simp_all add: phase_simps)

lemma update_dispatched:
  "pending (final (update cb now w)) \<noteq> pending w \<Longrightarrow>
   5000 \<le> now - lastUpdate w \<and> lastUpdate (final (update cb now w)) = now"
  by (cases rule: update_cases [of w cb now]) (simp_all add: phase_simps)

lemma classified_mode:
  assumes "mode w = Some ''new'' \<or> mode w = Some ''check''"
  shows "mode (update_classify (update_retry (update_notify cb w))) = Some ''new'' \<or>
         mode (update_classify (update_retry (update_notify cb w))) = Some ''check''"
proof (cases "status (update_retry (update_notify cb w)) = SESSION_UNINITIALIZED")
  case True
  then show ?thesis by (simp add: classify_changed(3))
next
  case False
  then show ?thesis using assms by (simp add: classify_skipped retry_same notify_same)
qed

lemma update_eligible:
  assumes "canUpdate w" "ngioCore w \<noteq> None" "mode w = Some ''new'' \<or> mode w = Some ''check''"
    "5000 \<le> now - lastUpdate w"
  shows "length (pending (final (update cb now w))) = length (pending w) + 1"
  using assms classified_mode [OF assms(3), of cb]
  by (cases rule: update_cases [of w cb now]) (auto simp add: phase_simps)

text \<open>
  C4, as amended. \<open>update\<close> sends no call when less than 5000 ms have passed since
  \<open>lastUpdate\<close>, and leaves \<open>lastUpdate\<close> alone then; when it sends one, at least 5000 ms
  had passed and \<open>lastUpdate\<close> is the current time, so an \<open>update\<close> that follows within
  5000 ms sends nothing. An \<open>update\<close> that is not blocked and whose mode is \<open>new\<close> or
  \<open>check\<close> sends its call as soon as 5000 ms have passed since \<open>lastUpdate\<close>.
\<close>

theorem C4_rate_limit:
  "(now - lastUpdate w < 5000 \<longrightarrow>
      pending (final (update cb now w)) = pending w \<and>
      lastUpdate (final (update cb now w)) = lastUpdate w)
   \<and> (pending (final (update cb now w)) \<noteq> pending w \<longrightarrow>
        5000 \<le> now - lastUpdate w \<and> lastUpdate (final (update cb now w)) = now \<and>
        (\<forall>cb2 now2. now2 - now < 5000 \<longrightarrow>
           pending (final (update cb2 now2 (final (update cb now w)))) =
           pending (final (update cb now w))))
   \<and> (canUpdate w \<and> ngioCore w \<noteq> None \<and> (mode w = Some ''new'' \<or> mode w = Some ''check'') \<and>
       5000 \<le> now - lastUpdate w \<longrightarrow>
        length (pending (final (update cb now w))) = length (pending w) + 1)"
proof (intro conjI impI allI)
  assume "now - lastUpdate w < 5000"
  then show "pending (final (update cb now w)) = pending w"
    and "lastUpdate (final (update cb now w)) = lastUpdate w"
    by (simp_all add: update_limited)
next
  assume d: "pending (final (update cb now w)) \<noteq> pending w"
  then show "5000 \<le> now - lastUpdate w" and l: "lastUpdate (final (update cb now w)) = now"
    by (simp_all add: update_dispatched)
  fix cb2 now2
  assume "now2 - now < (5000::int)"
  then have "now2 - lastUpdate (final (update cb now w)) < 5000"
    using l by simp
  then show "pending (final (update cb2 now2 (final (update cb now w)))) =
      pending (final (update cb now w))"
    by (simp add: update_limited)
next
  assume "canUpdate w \<and> ngioCore w \<noteq> None \<and> (mode w = Some ''new'' \<or> mode w = Some ''check'') \<and>
       5000 \<le> now - lastUpdate w"
  then show "length (pending (final (update cb now w))) = length (pending w) + 1"
    by (simp add: update_eligible)
qed

text \<open>
  C4 as stated fails: remote calls are not limited to one per five seconds.
  \<open>update\<close> sends a check at 10000 ms; the server reports it failed at 10100 ms, and
  \<open>cancelLogin\<close> sends the end-and-start batch at once and moves \<open>lastUpdate\<close> thirty
  seconds back; the batch fails at 10200 ms, and the \<open>update\<close> at 10300 ms sends a
  start-session call.
\<close>

theorem C4_counterexample:
  "pending (run [Update True 0, Complete 0 start_ok 100, OpenLoginPage] fresh_session) = []
   \<and> pending (run login_ops fresh_session) = [Call [App_checkSession] OnCheckSession]
   \<and> pending (run (login_ops @ [Complete 0 (check_failed 111) 10100,
                                 Complete 0 call_failed 10200]) fresh_session) = []
   \<and> pending (run (login_ops @ [Complete 0 (check_failed 111) 10100,
                                 Complete 0 call_failed 10200,
                                 Update True 10300]) fresh_session) =
       [Call [App_startSession] OnStartSession]"
  by (simp add: run_defs)

text \<open>C4 on a fresh session, and on one in mode \<open>check\<close>.\<close>

theorem C4_rate_limit_witness:
  "pending (final (update True 0 fresh_session)) \<noteq> pending fresh_session
   \<and> lastUpdate (final (update True 0 fresh_session)) = 0
   \<and> pending (final (update True 4999 (final (update True 0 fresh_session)))) =
       pending (final (update True 0 fresh_session))
   \<and> length (pending (final (update True 0 (fresh_session\<lparr>mode := Some ''check''\<rparr>)))) = 1"
proof -
  have a: "pending (final (update True 0 fresh_session)) \<noteq> pending fresh_session"
    by (simp add: run_defs)
  have b: "canUpdate (fresh_session\<lparr>mode := Some ''check''\<rparr>)"
    "ngioCore (fresh_session\<lparr>mode := Some ''check''\<rparr>) \<noteq> None"
    "mode (fresh_session\<lparr>mode := Some ''check''\<rparr>) = Some ''check''"
    "lastUpdate (fresh_session\<lparr>mode := Some ''check''\<rparr>) = - 30000"
    "pending (fresh_session\<lparr>mode := Some ''check''\<rparr>) = []"
    by (simp_all add: fresh_session_def new_Session_def)
  show ?thesis
    using C4_rate_limit [of 0 fresh_session True] a
      C4_rate_limit [of 0 "fresh_session\<lparr>mode := Some ''check''\<rparr>" True] b
    by simp
qed

section \<open>C5: classifying an uninitialized session\<close>

lemma update_uninitialized:
  assumes "status w = SESSION_UNINITIALIZED" "canUpdate w" "mode w \<noteq> Some ''wait''"
    "ngioCore w = Some a"
  shows
    "id_prop (final (update cb now w)) =
       (if truthy (uri_id w) then uri_id w
        else if truthy (getItem w (storageKey w)) then getItem w (storageKey w)
        else id_prop w)"
    "now - lastUpdate w < 5000 \<Longrightarrow>
       mode (final (update cb now w)) =
         Some (if truthy (id_prop (final (update cb now w))) \<and>
                  id_prop (final (update cb now w)) \<noteq> JStr ''null''
               then ''check'' else ''new'') \<and>
       saved_id (final (update cb now w)) = getItem w (storageKey w) \<and>
       pending (final (update cb now w)) = pending w"
    "5000 \<le> now - lastUpdate w \<Longrightarrow>
       mode (final (update cb now w)) = Some ''wait'' \<and>
       pending (final (update cb now w)) =
         pending w @
           [if truthy (id_prop (final (update cb now w))) \<and>
               id_prop (final (update cb now w)) \<noteq> JStr ''null''
            then Call [App_checkSession] OnCheckSession
            else Call [App_startSession] OnStartSession]"
proof -
  let ?w2 = "update_retry (update_notify cb w)"
  let ?w3 = "update_classify ?w2"
  have st: "status ?w2 = SESSION_UNINITIALIZED"
    using assms(1) by (simp add: phase_simps)
  have g: "getItem ?w2 (storageKey ?w2) = getItem w (storageKey w)"
    by (simp add: getItem_def storageKey_def phase_simps)
  have i3: "id_prop ?w3 =
       (if truthy (uri_id w) then uri_id w
        else if truthy (getItem w (storageKey w)) then getItem w (storageKey w)
        else id_prop w)"
    using classify_changed(2) [OF st] g by (simp add: phase_simps)
  have m3: "mode ?w3 =
       Some (if truthy (id_prop ?w3) \<and> id_prop ?w3 \<noteq> JStr ''null'' then ''check'' else ''new'')"
    by (rule classify_changed(3) [OF st])
  have s3: "saved_id ?w3 = getItem w (storageKey w)"
    using classify_changed(1) [OF st] g by simp
  show "id_prop (final (update cb now w)) =
       (if truthy (uri_id w) then uri_id w
        else if truthy (getItem w (storageKey w)) then getItem w (storageKey w)
        else id_prop w)"
    using assms i3
    by (cases rule: update_cases [of w cb now]) (simp_all add: reset_same)
  then have same_id: "id_prop (final (update cb now w)) = id_prop ?w3"
    using i3 by simp
  show "mode (final (update cb now w)) =
         Some (if truthy (id_prop (final (update cb now w))) \<and>
                  id_prop (final (update cb now w)) \<noteq> JStr ''null''
               then ''check'' else ''new'') \<and>
       saved_id (final (update cb now w)) = getItem w (storageKey w) \<and>
       pending (final (update cb now w)) = pending w"
    if "now - lastUpdate w < 5000"
    unfolding same_id using that assms m3 s3
    by (cases rule: update_cases [of w cb now]) (simp_all add: phase_simps)
  show "mode (final (update cb now w)) = Some ''wait'' \<and>
       pending (final (update cb now w)) =
         pending w @
           [if truthy (id_prop (final (update cb now w))) \<and>
               id_prop (final (update cb now w)) \<noteq> JStr ''null''
            then Call [App_checkSession] OnCheckSession
            else Call [App_startSession] OnStartSession]"
    if "5000 \<le> now - lastUpdate w"
    unfolding same_id using that assms m3
    by (cases rule: update_cases [of w cb now]) (auto simp add: reset_same split: if_splits)
qed

lemma remembered_store:
  assumes "u \<noteq> JNull" "ngioCore wA = Some a" "id_prop wA = JStr s"
  shows "localStorage (final (on_CheckSession (check_session False u True) t0 wA)) =
           (localStorage wA)(''_ngio_'' @ a @ ''_session_'' \<mapsto> s)"
  using assms
  by (simp add: on_CheckSession_def on_CheckSession_ok_def check_session_def setItem_def
      storageKey_def Let_def)

lemma fresh_reads_store:
  assumes "store (''_ngio_'' @ a @ ''_session_'') = Some s" "s \<noteq> []" "s \<noteq> ''null''" "t \<le> now"
  shows "mode (update_classify (new_Session (Some a) t store)) = Some ''check''"
    "id_prop (update_classify (new_Session (Some a) t store)) = JStr s"
    "mode (final (update cb now (new_Session (Some a) t store))) = Some ''wait''"
    "pending (final (update cb now (new_Session (Some a) t store))) =
       [Call [App_checkSession] OnCheckSession]"
  using assms
  by (simp_all add: new_Session_def update_def update_notify_def update_retry_def
      update_classify_def update_dispatch_def checkSession_def getItem_def storageKey_def Let_def)

text \<open>
  C5, as amended. When \<open>update\<close> passes its guards with status
  \<open>SESSION_UNINITIALIZED\<close>, the session id becomes the URI id if that is truthy, else
  the stored id if that is truthy, else it stays. The id is usable when it is truthy (not
  \<open>null\<close>, not the empty string) and not the string \<open>"null"\<close>. Inside the rate limit
  the call ends with mode \<open>check\<close> for a usable id and \<open>new\<close> otherwise, and
  \<open>saved_id\<close> holds what the storage gave. Past the rate limit the same call goes on to
  send the check-session call for a usable id and the start-session call otherwise, and
  ends with mode \<open>wait\<close>. Round trip: after a check response with a user and the
  remember flag, the storage holds the session id under the storage key, and a fresh
  session on that storage classifies as \<open>check\<close>; its first \<open>update\<close> sends the
  check-session call and ends with mode \<open>wait\<close>.
\<close>

theorem C5_classification:
  "(status w = SESSION_UNINITIALIZED \<and> canUpdate w \<and> mode w \<noteq> Some ''wait'' \<and>
    ngioCore w = Some a \<longrightarrow>
      id_prop (final (update cb now w)) =
        (if truthy (uri_id w) then uri_id w
         else if truthy (getItem w (storageKey w)) then getItem w (storageKey w)
         else id_prop w)
      \<and> (now - lastUpdate w < 5000 \<longrightarrow>
           mode (final (update cb now w)) =
             Some (if truthy (id_prop (final (update cb now w))) \<and>
                      id_prop (final (update cb now w)) \<noteq> JStr ''null''
                   then ''check'' else ''new'') \<and>
           saved_id (final (update cb now w)) = getItem w (storageKey w) \<and>
           pending (final (update cb now w)) = pending w)
      \<and> (5000 \<le> now - lastUpdate w \<longrightarrow>
           mode (final (update cb now w)) = Some ''wait'' \<and>
           pending (final (update cb now w)) =
             pending w @
               [if truthy (id_prop (final (update cb now w))) \<and>
                   id_prop (final (update cb now w)) \<noteq> JStr ''null''
                then Call [App_checkSession] OnCheckSession
                else Call [App_startSession] OnStartSession]))
   \<and> (s \<noteq> [] \<and> s \<noteq> ''null'' \<and> u \<noteq> JNull \<and> ngioCore wA = Some a \<and> id_prop wA = JStr s \<and>
       t \<le> now \<longrightarrow>
        localStorage (final (on_CheckSession (check_session False u True) t0 wA))
            (''_ngio_'' @ a @ ''_session_'') = Some s
        \<and> mode (update_classify (new_Session (Some a) t
              (localStorage (final (on_CheckSession (check_session False u True) t0 wA))))) =
            Some ''check''
        \<and> mode (final (update cb now (new_Session (Some a) t
              (localStorage (final (on_CheckSession (check_session False u True) t0 wA)))))) =
            Some ''wait''
        \<and> pending (final (update cb now (new_Session (Some a) t
              (localStorage (final (on_CheckSession (check_session False u True) t0 wA)))))) =
            [Call [App_checkSession] OnCheckSession])"
proof (intro conjI impI)
  assume h: "status w = SESSION_UNINITIALIZED \<and> canUpdate w \<and> mode w \<noteq> Some ''wait'' \<and>
    ngioCore w = Some a"
  then have h': "status w = SESSION_UNINITIALIZED" "canUpdate w" "mode w \<noteq> Some ''wait''"
    "ngioCore w = Some a"
    by simp_all
  show "id_prop (final (update cb now w)) =
        (if truthy (uri_id w) then uri_id w
         else if truthy (getItem w (storageKey w)) then getItem w (storageKey w)
         else id_prop w)"
    by (rule update_uninitialized(1) [OF h'])
  {
    assume "now - lastUpdate w < 5000"
    from update_uninitialized(2) [OF h' this]
    show "mode (final (update cb now w)) =
             Some (if truthy (id_prop (final (update cb now w))) \<and>
                      id_prop (final (update cb now w)) \<noteq> JStr ''null''
                   then ''check'' else ''new'')"
      and "saved_id (final (update cb now w)) = getItem w (storageKey w)"
      and "pending (final (update cb now w)) = pending w"
      by simp_all
  }
  {
    assume "5000 \<le> now - lastUpdate w"
    from update_uninitialized(3) [OF h' this]
    show "mode (final (update cb now w)) = Some ''wait''"
      and "pending (final (update cb now w)) =
             pending w @
               [if truthy (id_prop (final (update cb now w))) \<and>
                   id_prop (final (update cb now w)) \<noteq> JStr ''null''
                then Call [App_checkSession] OnCheckSession
                else Call [App_startSession] OnStartSession]"
      by simp_all
  }
next
  assume r: "s \<noteq> [] \<and> s \<noteq> ''null'' \<and> u \<noteq> JNull \<and> ngioCore wA = Some a \<and> id_prop wA = JStr s \<and>
       t \<le> now"
  let ?store = "localStorage (final (on_CheckSession (check_session False u True) t0 wA))"
  have st: "?store = (localStorage wA)(''_ngio_'' @ a @ ''_session_'' \<mapsto> s)"
    using r by (simp add: remembered_store)
  then show k: "?store (''_ngio_'' @ a @ ''_session_'') = Some s"
    by simp
  from r have r': "s \<noteq> []" "s \<noteq> ''null''" "t \<le> now"
    by simp_all
  show "mode (update_classify (new_Session (Some a) t ?store)) = Some ''check''"
    using k r' by (rule fresh_reads_store(1) [where store = "?store"])
  show "mode (final (update cb now (new_Session (Some a) t ?store))) = Some ''wait''"
    using k r' by (rule fresh_reads_store(3) [where store = "?store"])
  show "pending (final (update cb now (new_Session (Some a) t ?store))) =
      [Call [App_checkSession] OnCheckSession]"
    using k r' by (rule fresh_reads_store(4) [where store = "?store"])
qed

text \<open>
  C5 as stated fails. The first \<open>update\<close> of a fresh session that finds a remembered id
  ends with mode \<open>wait\<close>, not \<open>check\<close>: the rate limit of a fresh session has passed, so
  the call that classifies also sends the check. And an id that is the empty string is
  neither \<open>null\<close> nor \<open>"null"\<close>, yet the mode is \<open>new\<close>.
\<close>

theorem C5_counterexample:
  "localStorage (run (login_ops @ [Complete 0 (check_session False some_user True) 10100])
       fresh_session) ''_ngio_demo_session_'' = Some ''abc''
   \<and> mode (final (update True 50000 (new_Session (Some ''demo'') 50000
        (localStorage (run (login_ops @ [Complete 0 (check_session False some_user True) 10100])
           fresh_session))))) = Some ''wait''
   \<and> id_prop (final (update True 0 (fresh_session\<lparr>id_prop := JStr [], lastUpdate := 0\<rparr>))) =
       JStr []
   \<and> mode (final (update True 0 (fresh_session\<lparr>id_prop := JStr [], lastUpdate := 0\<rparr>))) =
       Some ''new''"
  by (simp add: run_defs)

text \<open>
  C5 on a session with a URI id inside the rate limit, on a fresh session, and on a fresh
  session that reads the id \<open>abc\<close> remembered by another.
\<close>

theorem C5_classification_witness:
  "id_prop (final (update True 0 (fresh_session\<lparr>uri_id := JStr ''u1'', lastUpdate := 0\<rparr>))) =
     JStr ''u1''
   \<and> mode (final (update True 0 (fresh_session\<lparr>uri_id := JStr ''u1'', lastUpdate := 0\<rparr>))) =
       Some ''check''
   \<and> mode (final (update True 0 fresh_session)) = Some ''wait''
   \<and> pending (final (update True 0 fresh_session)) = [Call [App_startSession] OnStartSession]
   \<and> mode (final (update True 7 (new_Session (Some ''demo'') 7
        (localStorage (final (on_CheckSession (check_session False some_user True) 3
           (fresh_session\<lparr>id_prop := JStr ''abc''\<rparr>))))))) = Some ''wait''
   \<and> pending (final (update True 7 (new_Session (Some ''demo'') 7
        (localStorage (final (on_CheckSession (check_session False some_user True) 3
           (fresh_session\<lparr>id_prop := JStr ''abc''\<rparr>))))))) =
       [Call [App_checkSession] OnCheckSession]"
proof -
  let ?w = "fresh_session\<lparr>uri_id := JStr ''u1'', lastUpdate := 0\<rparr>"
  let ?wA = "fresh_session\<lparr>id_prop := JStr ''abc''\<rparr>"
  have a: "status ?w = SESSION_UNINITIALIZED" "canUpdate ?w" "mode ?w \<noteq> Some ''wait''"
    "ngioCore ?w = Some ''demo''" "lastUpdate ?w = 0" "uri_id ?w = JStr ''u1''"
    by (simp_all add: fresh_session_def new_Session_def)
  have b: "status fresh_session = SESSION_UNINITIALIZED" "canUpdate fresh_session"
    "mode fresh_session \<noteq> Some ''wait''" "ngioCore fresh_session = Some ''demo''"
    "lastUpdate fresh_session = - 30000" "uri_id fresh_session = JNull"
    "id_prop fresh_session = JNull" "pending fresh_session = []"
    "getItem fresh_session (storageKey fresh_session) = JNull"
    by (simp_all add: fresh_session_def new_Session_def getItem_def storageKey_def)
  have c: "some_user \<noteq> JNull" "ngioCore ?wA = Some ''demo''" "id_prop ?wA = JStr ''abc''"
    by (simp_all add: fresh_session_def new_Session_def some_user_def)
  show ?thesis
    using C5_classification [where w = ?w and a = "''demo''" and cb = True and now = 0]
      C5_classification [where w = fresh_session and a = "''demo''" and cb = True and now = 0]
      C5_classification [where a = "''demo''" and cb = True and now = 7 and s = "''abc''"
        and u = some_user and wA = ?wA and t = 7 and ?t0.0 = 3]
      a b c
    by simp
qed

section \<open>C2: the retry after SERVER_UNAVAILABLE\<close>

text \<open>
  C2. The code at two inputs. First: a fresh session's \<open>update\<close> sends the start-session
  call, the call fails, and the status is \<open>SERVER_UNAVAILABLE\<close> with mode \<open>wait\<close> still
  set; the next \<open>update\<close>, six seconds on, returns at the \<open>mode == "wait"\<close> guard: the
  status stays, the retry counter stays 0, and no call is sent. Second: after five retries
  and a sixth failed log-out the counter is at its ceiling with mode \<open>new\<close>; the retry
  step sets \<open>EXCEEDED_MAX_ATTEMPTS\<close>, and the same \<open>update\<close> goes on to send a
  start-session call and ends at \<open>WAITING_FOR_SERVER\<close>.
\<close>

theorem C2_retry_blocked:
  "status (run [Update True 0, Complete 0 call_failed 100] fresh_session) = SERVER_UNAVAILABLE
   \<and> canUpdate (run [Update True 0, Complete 0 call_failed 100] fresh_session)
   \<and> mode (run [Update True 0, Complete 0 call_failed 100] fresh_session) = Some ''wait''
   \<and> status (run [Update True 0, Complete 0 call_failed 100, Update True 6000] fresh_session) =
       SERVER_UNAVAILABLE
   \<and> totalAttempts (run [Update True 0, Complete 0 call_failed 100, Update True 6000]
        fresh_session) = 0
   \<and> pending (run [Update True 0, Complete 0 call_failed 100, Update True 6000]
        fresh_session) = []
   \<and> status (run exhausted_ops fresh_session) = SERVER_UNAVAILABLE
   \<and> totalAttempts (run exhausted_ops fresh_session) = 5
   \<and> maxAttempts (run exhausted_ops fresh_session) = 5
   \<and> status (update_retry (run exhausted_ops fresh_session)) = EXCEEDED_MAX_ATTEMPTS
   \<and> status (run (exhausted_ops @ [Update False 50010]) fresh_session) = WAITING_FOR_SERVER
   \<and> pending (run (exhausted_ops @ [Update False 50010]) fresh_session) =
       [Call [App_startSession] OnStartSession]"
  by (simp add: run_defs exhausted_ops_def)

section \<open>C6: a check the server reports as failed\<close>

text \<open>
  C6. The code at the input of the claim's scenario: a check sent by \<open>update\<close> is answered
  with a reported failure. The status is \<open>LOGIN_CANCELLED\<close> for code 111 and
  \<open>LOGIN_FAILED\<close> for another code, the session id is \<open>null\<close> and the retry counter 0;
  but \<open>cancelLogin\<close> writes \<open>"new"\<close> to the private field \<open>#mode\<close>, and the property
  \<open>mode\<close> that \<open>update\<close> reads is still \<open>wait\<close>.
\<close>

theorem C6_mode_not_reset:
  "status (run (login_ops @ [Complete 0 (check_failed 111) 10100]) fresh_session) =
     LOGIN_CANCELLED
   \<and> status (run (login_ops @ [Complete 0 (check_failed 7) 10100]) fresh_session) =
       LOGIN_FAILED
   \<and> id_prop (run (login_ops @ [Complete 0 (check_failed 111) 10100]) fresh_session) = JNull
   \<and> totalAttempts (run (login_ops @ [Complete 0 (check_failed 111) 10100]) fresh_session) = 0
   \<and> priv_mode (run (login_ops @ [Complete 0 (check_failed 111) 10100]) fresh_session) =
       ''new''
   \<and> mode (run (login_ops @ [Complete 0 (check_failed 111) 10100]) fresh_session) =
       Some ''wait''"
  by (simp add: run_defs)

section \<open>C7: a check that finds the session expired\<close>

text \<open>
  C7. The code at the input of the claim: a check sent by \<open>update\<close> is answered with an
  expired session. The handler resets the session, clears the id and sets
  \<open>SESSION_UNINITIALIZED\<close> with \<open>canUpdate\<close> true, but leaves mode \<open>wait\<close>; the
  \<open>update\<close> calls ten and twenty seconds later return at the \<open>mode == "wait"\<close> guard
  and send nothing.
\<close>

theorem C7_expired_stalls:
  "status (run (login_ops @ [Complete 0 (check_session True JNull False) 10100])
       fresh_session) = SESSION_UNINITIALIZED
   \<and> id_prop (run (login_ops @ [Complete 0 (check_session True JNull False) 10100])
        fresh_session) = JNull
   \<and> canUpdate (run (login_ops @ [Complete 0 (check_session True JNull False) 10100])
        fresh_session)
   \<and> mode (run (login_ops @ [Complete 0 (check_session True JNull False) 10100])
        fresh_session) = Some ''wait''
   \<and> pending (run (login_ops @ [Complete 0 (check_session True JNull False) 10100])
        fresh_session) = []
   \<and> pending (run (login_ops @ [Complete 0 (check_session True JNull False) 10100,
                                 Update True 20000, Update True 30000])
        fresh_session) = []
   \<and> status (run (login_ops @ [Complete 0 (check_session True JNull False) 10100,
                                Update True 20000, Update True 30000])
        fresh_session) = SESSION_UNINITIALIZED"
  by (simp add: run_defs)

section \<open>C8: the retry counter\<close>

lemma on_StartSession_attempts:
  "totalAttempts (final (on_StartSession response w)) = totalAttempts w"
  by (simp add: on_StartSession_def split: sum.splits prod.splits)

lemma on_EndThenStart_attempts:
  "totalAttempts (final (on_EndThenStart cb response w)) = totalAttempts w"
proof -
  have "totalAttempts (final (on_StartSession response (on_EndSession response w))) =
      totalAttempts w"
    by (simp add: on_StartSession_attempts on_EndSession_def reset_same)
  then show ?thesis
    by (cases "on_StartSession response (on_EndSession response w)")
      (auto simp: on_EndThenStart_def)
qed

lemma cancelLogin_attempts:
  "totalAttempts (final (cancelLogin ns now w)) = totalAttempts w \<or>
   totalAttempts (final (cancelLogin ns now w)) = 0"
  by (simp add: cancelLogin_def endSession_def Let_def split: option.splits)

lemma on_CheckSession_ok_attempts:
  "totalAttempts (final (on_CheckSession_ok r w)) = totalAttempts w"
  by (simp add: on_CheckSession_ok_def Let_def setItem_def reset_same split: sum.splits)

lemma on_CheckSession_failed_attempts:
  "totalAttempts (final (on_CheckSession_failed r now w)) = totalAttempts w \<or>
   totalAttempts (final (on_CheckSession_failed r now w)) = 0"
  by (simp add: on_CheckSession_failed_def cancelLogin_def endSession_def Let_def
      split: sum.splits option.splits)

lemma on_CheckSession_attempts:
  "totalAttempts (final (on_CheckSession response now w)) = totalAttempts w \<or>
   (reports_failure response \<and> totalAttempts (final (on_CheckSession response now w)) = 0)"
proof (cases "reports_failure response")
  case True
  then obtain r where "get_prop response ''success'' = Inr (JBool True)"
    "get_prop response ''result'' = Inr r"
    and "on_CheckSession response now w = on_CheckSession_failed r now w"
    by (auto simp: reports_failure_def on_CheckSession_def split: sum.splits)
  then show ?thesis
    using True on_CheckSession_failed_attempts [of r now w] by simp
next
  case False
  then show ?thesis
    by (auto simp: reports_failure_def on_CheckSession_def on_CheckSession_ok_attempts
        split: sum.splits)
qed

lemma update_attempts:
  "totalAttempts w \<le> totalAttempts (final (update cb now w)) \<and>
   totalAttempts (final (update cb now w)) \<le> totalAttempts w + 1"
  by (cases rule: update_cases [of w cb now]) (simp_all add: phase_simps)

lemma step_attempts:
  "totalAttempts w \<le> totalAttempts (final (step x w)) \<or>
   (calls_cancelLogin x w \<and> totalAttempts (final (step x w)) = 0)"
proof (cases x)
  case (Update cb now)
  then show ?thesis by (simp add: update_attempts)
next
  case StartSession
  then show ?thesis
    by (simp add: startSession_def Let_def reset_same split: option.splits)
next
  case CheckSession
  then show ?thesis
    by (simp add: checkSession_def Let_def split: option.splits)
next
  case (EndSession cb)
  then show ?thesis
    by (simp add: endSession_def Let_def split: option.splits)
next
  case (LogOut cb)
  then show ?thesis
    by (simp add: logOut_def endSession_def Let_def split: option.splits)
next
  case (CancelLogin ns now)
  then show ?thesis
    using cancelLogin_attempts [of ns now w] by auto
next
  case OpenLoginPage
  then show ?thesis by (simp add: openLoginPage_def)
next
  case (Complete i response now)
  show ?thesis
  proof (cases "i < length (pending w)")
    case False
    then show ?thesis using Complete by (simp add: complete_def)
  next
    case True
    let ?w1 = "w\<lparr>pending := take i (pending w) @ drop (Suc i) (pending w)\<rparr>"
    obtain cs h where c: "pending w ! i = Call cs h"
      by (cases "pending w ! i") auto
    show ?thesis
    proof (cases h)
      case OnStartSession
      then show ?thesis
        using Complete True c on_StartSession_attempts [of response ?w1]
        by (simp add: complete_def Let_def)
    next
      case OnCheckSession
      then show ?thesis
        using Complete True c on_CheckSession_attempts [of response now ?w1]
        by (auto simp add: complete_def Let_def)
    next
      case (OnEndThenStart cb)
      then show ?thesis
        using Complete True c on_EndThenStart_attempts [of cb response ?w1]
        by (simp add: complete_def Let_def)
    qed
  qed
qed

lemma calls_may_cancel: "calls_cancelLogin x w \<Longrightarrow> may_cancel x"
  by (cases x) auto

lemma run_attempts:
  "\<forall>x\<in>set xs. \<not> may_cancel x \<Longrightarrow> totalAttempts w \<le> totalAttempts (run xs w)"
proof (induction xs arbitrary: w)
  case Nil
  then show ?case by simp
next
  case (Cons x xs)
  then have "\<not> calls_cancelLogin x w"
    using calls_may_cancel by auto
  then have "totalAttempts w \<le> totalAttempts (final (step x w))"
    using step_attempts [of w x] by simp
  also have "\<dots> \<le> totalAttempts (run xs (final (step x w)))"
    using Cons by simp
  finally show ?case by simp
qed

text \<open>
  C8, as amended. A step either does not lower the retry counter, or it runs
  \<open>cancelLogin\<close> (a direct call, or the completion of a check whose response reports
  failure) and leaves the counter 0. Over a run with no direct \<open>cancelLogin\<close> and no
  completion that reports failure the counter never decreases. \<open>update\<close> raises it by at
  most one, and the start-session handler leaves it as it is.
\<close>

theorem C8_attempts:
  "(totalAttempts w \<le> totalAttempts (final (step x w)) \<or>
    (calls_cancelLogin x w \<and> totalAttempts (final (step x w)) = 0))
   \<and> ((\<forall>y\<in>set xs. \<not> may_cancel y) \<longrightarrow> totalAttempts w \<le> totalAttempts (run xs w))
   \<and> totalAttempts (final (update cb now w)) \<le> totalAttempts w + 1
   \<and> totalAttempts (final (on_StartSession response w)) = totalAttempts w"
  using step_attempts run_attempts update_attempts on_StartSession_attempts
  by blast

text \<open>C8 on a run without cancel, and on the completion that resets the counter.\<close>

theorem C8_attempts_witness:
  "(\<not> may_cancel (LogOut False)) \<and> \<not> may_cancel (Complete 0 call_failed 100)
   \<and> \<not> may_cancel (Update True 200)
   \<and> totalAttempts fresh_session \<le>
       totalAttempts (run [LogOut False, Complete 0 call_failed 100, Update True 200]
         fresh_session)
   \<and> calls_cancelLogin (Complete 0 (check_failed 7) 6100) (run failed_login_ops fresh_session)
   \<and> totalAttempts (final (step (Complete 0 (check_failed 7) 6100)
        (run failed_login_ops fresh_session))) = 0"
proof -
  have a: "\<not> may_cancel (LogOut False)" "\<not> may_cancel (Complete 0 call_failed 100)"
    "\<not> may_cancel (Update True 200)"
    by (simp_all add: reports_failure_def call_failed_def)
  have b: "totalAttempts (run failed_login_ops fresh_session) = 1"
    "calls_cancelLogin (Complete 0 (check_failed 7) 6100) (run failed_login_ops fresh_session)"
    "totalAttempts (final (step (Complete 0 (check_failed 7) 6100)
        (run failed_login_ops fresh_session))) = 0"
    by (simp_all add: run_defs failed_login_ops_def)
  show ?thesis
    using C8_attempts [of fresh_session "LogOut False"
        "[LogOut False, Complete 0 call_failed 100, Update True 200]"]
      C8_attempts [of "run failed_login_ops fresh_session" "Complete 0 (check_failed 7) 6100" "[]"]
      a b
    by simp
qed

text \<open>
  C8 as stated fails: the counter is reset without a cancel by the user. After one
  automatic retry the counter is 1; the server then reports the check as failed with code
  7, and the handler, through \<open>cancelLogin\<close>, sets the counter to 0 and the status to
  \<open>LOGIN_FAILED\<close>.
\<close>

theorem C8_counterexample:
  "totalAttempts (run failed_login_ops fresh_session) = 1
   \<and> pending (run failed_login_ops fresh_session) = [Call [App_checkSession] OnCheckSession]
   \<and> totalAttempts (run (failed_login_ops @ [Complete 0 (check_failed 7) 6100])
        fresh_session) = 0
   \<and> status (run (failed_login_ops @ [Complete 0 (check_failed 7) 6100]) fresh_session) =
       LOGIN_FAILED"
  by (simp add: run_defs failed_login_ops_def)

section \<open>C9: logging out\<close>

lemma logOut_core:
  "ngioCore w = Some a \<Longrightarrow>
   logOut cb w =
     Inr (w\<lparr>mode := Some ''wait'', canUpdate := False,
            pending := pending w @
              [Call [App_endSession, App_startSession] (OnEndThenStart cb)]\<rparr>)"
  by (simp add: logOut_def endSession_def Let_def)

lemma complete_batch:
  "i < length (pending w) \<Longrightarrow> pending w ! i = Call cs (OnEndThenStart cb) \<Longrightarrow>
   complete i response now w =
     on_EndThenStart cb response
       (w\<lparr>pending := take i (pending w) @ drop (Suc i) (pending w)\<rparr>)"
  by (simp add: complete_def Let_def)

lemma on_StartSession_status:
  "status w \<noteq> WAITING_FOR_SERVER \<Longrightarrow>
   status (final (on_StartSession response w)) \<noteq> WAITING_FOR_SERVER"
  by (simp add: on_StartSession_def split: sum.splits prod.splits)

lemma batch_never_waiting:
  "status (final (on_EndThenStart cb response w)) \<noteq> WAITING_FOR_SERVER"
proof -
  have "status (on_EndSession response w) \<noteq> WAITING_FOR_SERVER"
    by (simp add: on_EndSession_def)
  then have "status (final (on_StartSession response (on_EndSession response w))) \<noteq>
      WAITING_FOR_SERVER"
    by (rule on_StartSession_status)
  then show ?thesis
    by (cases "on_StartSession response (on_EndSession response w)")
      (auto simp: on_EndThenStart_def)
qed

lemma batch_session_id:
  "id_prop (final (on_EndThenStart cb response w)) = JNull \<or>
   (\<exists>url. extract_session response =
      Inr (id_prop (final (on_EndThenStart cb response w)), url))"
  by (auto simp: on_EndThenStart_def on_StartSession_def on_EndSession_def
      split: sum.splits prod.splits)

lemma batch_call_failed:
  assumes "get_prop response ''success'' = Inr sv" "sv \<noteq> JBool True"
  shows "on_EndThenStart cb response w =
     Inr ((resetSession w)
            \<lparr>id_prop := JNull, user := JNull, passport_url := JNull, mode := Some ''new'',
             status := SERVER_UNAVAILABLE, canUpdate := True,
             trace := trace w @ (if cb then [OnComplete] else [])\<rparr>)"
  using assms
  by (simp add: on_EndThenStart_def on_StartSession_def on_EndSession_def reset_same)

lemma batch_call_ok:
  assumes "get_prop response ''success'' = Inr (JBool True)"
    "extract_session response = Inr (sid, url)"
  shows "on_EndThenStart cb response w =
     Inr ((resetSession w)
            \<lparr>id_prop := sid, user := JNull, passport_url := url, mode := Some ''wait'',
             status := LOGIN_REQUIRED, canUpdate := True,
             trace := trace w @ (if cb then [OnComplete] else [])\<rparr>)"
  using assms
  by (simp add: on_EndThenStart_def on_StartSession_def on_EndSession_def reset_same)

text \<open>
  C9, as amended. With a core attached, \<open>logOut\<close> sets mode \<open>wait\<close>, clears
  \<open>canUpdate\<close> and sends one batch: end-session, then start-session. Its completion runs
  the end-session handler, then the start-session handler on the same response, then the
  callback if one was passed. Afterwards the status is never \<open>WAITING_FOR_SERVER\<close>, and
  the session id is \<open>null\<close> or the id read from the response: when
  the call failed it is \<open>SERVER_UNAVAILABLE\<close> with the session id \<open>null\<close> and mode
  \<open>new\<close>; when it succeeded and the session could be read it is \<open>LOGIN_REQUIRED\<close>
  with the new id and passport URL and mode \<open>wait\<close>. In both cases the user is cleared.
\<close>

theorem C9_logout_batch:
  "(ngioCore w = Some a \<longrightarrow>
      logOut cb w =
        Inr (w\<lparr>mode := Some ''wait'', canUpdate := False,
               pending := pending w @
                 [Call [App_endSession, App_startSession] (OnEndThenStart cb)]\<rparr>))
   \<and> (i < length (pending w) \<and> pending w ! i = Call cs (OnEndThenStart cb) \<longrightarrow>
        complete i response now w =
          on_EndThenStart cb response
            (w\<lparr>pending := take i (pending w) @ drop (Suc i) (pending w)\<rparr>))
   \<and> status (final (on_EndThenStart cb response w)) \<noteq> WAITING_FOR_SERVER
   \<and> (id_prop (final (on_EndThenStart cb response w)) = JNull \<or>
       (\<exists>url. extract_session response =
          Inr (id_prop (final (on_EndThenStart cb response w)), url)))
   \<and> (get_prop response ''success'' = Inr sv \<and> sv \<noteq> JBool True \<longrightarrow>
        on_EndThenStart cb response w =
          Inr ((resetSession w)
                 \<lparr>id_prop := JNull, user := JNull, passport_url := JNull,
                  mode := Some ''new'', status := SERVER_UNAVAILABLE, canUpdate := True,
                  trace := trace w @ (if cb then [OnComplete] else [])\<rparr>))
   \<and> (get_prop response ''success'' = Inr (JBool True) \<and>
       extract_session response = Inr (sid, url) \<longrightarrow>
        on_EndThenStart cb response w =
          Inr ((resetSession w)
                 \<lparr>id_prop := sid, user := JNull, passport_url := url,
                  mode := Some ''wait'', status := LOGIN_REQUIRED, canUpdate := True,
                  trace := trace w @ (if cb then [OnComplete] else [])\<rparr>))"
proof (intro conjI impI)
  assume "ngioCore w = Some a"
  then show "logOut cb w =
      Inr (w\<lparr>mode := Some ''wait'', canUpdate := False,
             pending := pending w @
               [Call [App_endSession, App_startSession] (OnEndThenStart cb)]\<rparr>)"
    by (rule logOut_core)
next
  assume "i < length (pending w) \<and> pending w ! i = Call cs (OnEndThenStart cb)"
  then show "complete i response now w =
      on_EndThenStart cb response
        (w\<lparr>pending := take i (pending w) @ drop (Suc i) (pending w)\<rparr>)"
    by (simp add: complete_batch)
next
  show "status (final (on_EndThenStart cb response w)) \<noteq> WAITING_FOR_SERVER"
    by (rule batch_never_waiting)
next
  show "id_prop (final (on_EndThenStart cb response w)) = JNull \<or>
       (\<exists>url. extract_session response =
          Inr (id_prop (final (on_EndThenStart cb response w)), url))"
    by (rule batch_session_id)
next
  assume "get_prop response ''success'' = Inr sv \<and> sv \<noteq> JBool True"
  then have "get_prop response ''success'' = Inr sv" "sv \<noteq> JBool True"
    by simp_all
  then show "on_EndThenStart cb response w =
      Inr ((resetSession w)
             \<lparr>id_prop := JNull, user := JNull, passport_url := JNull,
              mode := Some ''new'', status := SERVER_UNAVAILABLE, canUpdate := True,
              trace := trace w @ (if cb then [OnComplete] else [])\<rparr>)"
    by (rule batch_call_failed)
next
  assume "get_prop response ''success'' = Inr (JBool True) \<and>
       extract_session response = Inr (sid, url)"
  then have "get_prop response ''success'' = Inr (JBool True)"
    "extract_session response = Inr (sid, url)"
    by simp_all
  then show "on_EndThenStart cb response w =
      Inr ((resetSession w)
             \<lparr>id_prop := sid, user := JNull, passport_url := url,
              mode := Some ''wait'', status := LOGIN_REQUIRED, canUpdate := True,
              trace := trace w @ (if cb then [OnComplete] else [])\<rparr>)"
    by (rule batch_call_ok)
qed

text \<open>C9 on a fresh session that logs out, with a batch that succeeds and one that fails.\<close>

theorem C9_logout_batch_witness:
  "status (final (on_EndThenStart True batch_ok (final (logOut True fresh_session)))) =
     LOGIN_REQUIRED
   \<and> id_prop (final (on_EndThenStart True batch_ok (final (logOut True fresh_session)))) =
       JStr ''xyz''
   \<and> trace (final (on_EndThenStart True batch_ok (final (logOut True fresh_session)))) =
       [OnComplete]
   \<and> status (final (on_EndThenStart True call_failed (final (logOut True fresh_session)))) =
       SERVER_UNAVAILABLE
   \<and> pending (final (logOut True fresh_session)) =
       [Call [App_endSession, App_startSession] (OnEndThenStart True)]
   \<and> complete 0 batch_ok 5 (final (logOut True fresh_session)) =
       on_EndThenStart True batch_ok ((final (logOut True fresh_session))\<lparr>pending := []\<rparr>)"
proof -
  let ?w = "final (logOut True fresh_session)"
  have a: "ngioCore fresh_session = Some ''demo''" "pending fresh_session = []"
    "trace fresh_session = []"
    by (simp_all add: fresh_session_def new_Session_def)
  have b: "get_prop batch_ok ''success'' = Inr (JBool True)"
    "extract_session batch_ok = Inr (JStr ''xyz'', JStr ''https://login2'')"
    "get_prop call_failed ''success'' = Inr (JBool False)"
    by (simp_all add: batch_ok_def call_failed_def extract_session_def select_result_def
        is_startSession_record_def)
  have l: "logOut True fresh_session =
      Inr (fresh_session\<lparr>mode := Some ''wait'', canUpdate := False,
             pending := [Call [App_endSession, App_startSession] (OnEndThenStart True)]\<rparr>)"
    using C9_logout_batch [where w = fresh_session and a = "''demo''" and cb = True] a
    by simp
  show ?thesis
    using C9_logout_batch [where w = ?w and cb = True and response = batch_ok
        and sid = "JStr ''xyz''" and url = "JStr ''https://login2''" and i = 0
        and cs = "[App_endSession, App_startSession]" and now = 5]
      C9_logout_batch [where w = ?w and cb = True and response = call_failed
        and sv = "JBool False"]
      a b l
    by (simp add: reset_same)
qed

text \<open>
  C9 as stated fails: a logged-in session logs out, the batch fails, and the status is
  \<open>SERVER_UNAVAILABLE\<close>, neither \<open>WAITING_FOR_SERVER\<close> nor \<open>LOGIN_REQUIRED\<close>.
\<close>

theorem C9_counterexample:
  "status (run (login_ops @ [Complete 0 (check_session False some_user False) 10100])
       fresh_session) = LOGIN_SUCCESSFUL
   \<and> pending (run (login_ops @ [Complete 0 (check_session False some_user False) 10100,
                                 LogOut True]) fresh_session) =
       [Call [App_endSession, App_startSession] (OnEndThenStart True)]
   \<and> status (run (login_ops @ [Complete 0 (check_session False some_user False) 10100,
                                LogOut True, Complete 0 call_failed 20000]) fresh_session) =
       SERVER_UNAVAILABLE
   \<and> pending (run (login_ops @ [Complete 0 (check_session False some_user False) 10100,
                                 LogOut True, Complete 0 call_failed 20000]) fresh_session) = []"
  by (simp add: run_defs)

section \<open>C10: reading the start-session result\<close>

lemma scan_None: "scan_startSession xs = None \<longleftrightarrow> (\<forall>x\<in>set xs. \<not> is_startSession_record x)"
  by (induction xs) auto

lemma scan_Some: "scan_startSession xs = Some x \<Longrightarrow> x \<in> set xs \<and> is_startSession_record x"
  by (induction xs) (auto split: if_splits)

lemma session_read:
  "get_prop v ''session'' = Inr s \<Longrightarrow> s \<noteq> JNull \<Longrightarrow> s \<noteq> JUndefined \<Longrightarrow> has_field v ''session''"
  by (cases v) (auto split: option.splits)

lemma read_fails: "(\<exists>e. get_prop s k = Inl e) \<longleftrightarrow> s = JNull \<or> s = JUndefined"
  by (cases s) auto

lemma extract_ok:
  assumes "get_prop response ''result'' = Inr r"
  shows "(\<exists>p. extract_session response = Inr p) \<longleftrightarrow>
         (\<exists>s. get_prop (select_result r) ''session'' = Inr s \<and> s \<noteq> JNull \<and> s \<noteq> JUndefined)"
proof -
  have "\<And>s k. s \<noteq> JNull \<Longrightarrow> s \<noteq> JUndefined \<Longrightarrow> \<exists>v. get_prop s k = Inr v"
    subgoal for s k by (cases s) auto
    done
  then show ?thesis
    using assms read_fails
    by (fastforce simp: extract_session_def split: sum.splits)
qed

lemma on_StartSession_returns:
  assumes "get_prop response ''success'' = Inr (JBool True)"
  shows "returns (on_StartSession response w) \<longleftrightarrow> (\<exists>p. extract_session response = Inr p)"
  using assms by (auto simp: on_StartSession_def split: sum.splits)

lemma on_StartSession_throws:
  assumes "get_prop response ''success'' = Inr (JBool True)"
    "extract_session response = Inl TypeError"
  shows "on_StartSession response w = Inl (TypeError, w)"
  using assms by (simp add: on_StartSession_def)

lemma total_needs_shape:
  assumes "get_prop response ''success'' = Inr (JBool True)"
    "get_prop response ''result'' = Inr r" "returns (on_StartSession response w)"
  shows "has_field r ''session'' \<or>
         (\<exists>xs. r = JArr xs \<and> (\<exists>x\<in>set xs. is_startSession_record x))"
proof -
  obtain s where s: "get_prop (select_result r) ''session'' = Inr s" "s \<noteq> JNull"
    "s \<noteq> JUndefined"
    using assms on_StartSession_returns extract_ok by blast
  show ?thesis
  proof (cases "\<exists>xs. r = JArr xs")
    case True
    then obtain xs where xs: "r = JArr xs" by blast
    show ?thesis
    proof (cases "scan_startSession xs")
      case None
      then show ?thesis using s xs by (simp add: select_result_def)
    next
      case (Some x)
      then show ?thesis using xs scan_Some by blast
    qed
  next
    case False
    then have "select_result r = r"
      by (cases r) (simp_all add: select_result_def)
    then show ?thesis using s session_read by simp
  qed
qed

lemma untagged_array_throws:
  assumes "get_prop response ''success'' = Inr (JBool True)"
    "get_prop response ''result'' = Inr (JArr xs)" "\<forall>x\<in>set xs. \<not> is_startSession_record x"
  shows "select_result (JArr xs) = JArr xs"
    "get_prop (select_result (JArr xs)) ''session'' = Inr JUndefined"
    "extract_session response = Inl TypeError"
    "on_StartSession response w = Inl (TypeError, w)"
proof -
  have n: "scan_startSession xs = None"
    using assms(3) by (simp add: scan_None)
  then show a: "select_result (JArr xs) = JArr xs"
    by (simp add: select_result_def)
  then show "get_prop (select_result (JArr xs)) ''session'' = Inr JUndefined"
    by simp
  show e: "extract_session response = Inl TypeError"
    using assms(2) a by (simp add: extract_session_def)
  show "on_StartSession response w = Inl (TypeError, w)"
    using assms(1) e by (rule on_StartSession_throws)
qed

text \<open>
  C10. For a start-session response with \<open>success === true\<close>: if the handler returns,
  the result is a record with a \<open>session\<close> field, or an array with an element the scan
  accepts as tagged \<open>App.startSession\<close>. If the result is an array with no such element,
  the scan leaves the whole array selected, its \<open>session\<close> is \<open>undefined\<close>, and the
  read of \<open>session.id\<close> throws a TypeError with the session unchanged. The handler
  returns whenever the selected record's \<open>session\<close> is neither \<open>null\<close> nor
  \<open>undefined\<close>.
\<close>

theorem C10_extraction:
  "get_prop response ''success'' = Inr (JBool True) \<and> get_prop response ''result'' = Inr r \<longrightarrow>
     (returns (on_StartSession response w) \<longrightarrow>
        has_field r ''session'' \<or>
        (\<exists>xs. r = JArr xs \<and> (\<exists>x\<in>set xs. is_startSession_record x)))
     \<and> (\<forall>xs. r = JArr xs \<and> (\<forall>x\<in>set xs. \<not> is_startSession_record x) \<longrightarrow>
           select_result r = r \<and>
           get_prop (select_result r) ''session'' = Inr JUndefined \<and>
           extract_session response = Inl TypeError \<and>
           on_StartSession response w = Inl (TypeError, w))
     \<and> (\<forall>s. get_prop (select_result r) ''session'' = Inr s \<and> s \<noteq> JNull \<and> s \<noteq> JUndefined \<longrightarrow>
           returns (on_StartSession response w))"
proof (intro impI conjI allI)
  assume h: "get_prop response ''success'' = Inr (JBool True) \<and>
    get_prop response ''result'' = Inr r"
  then have h1: "get_prop response ''success'' = Inr (JBool True)"
    and h2: "get_prop response ''result'' = Inr r"
    by simp_all
  {
    assume "returns (on_StartSession response w)"
    with h1 h2 show "has_field r ''session'' \<or>
        (\<exists>xs. r = JArr xs \<and> (\<exists>x\<in>set xs. is_startSession_record x))"
      by (rule total_needs_shape)
  }
  {
    fix xs
    assume a: "r = JArr xs \<and> (\<forall>x\<in>set xs. \<not> is_startSession_record x)"
    then have r: "get_prop response ''result'' = Inr (JArr xs)"
      and u: "\<forall>x\<in>set xs. \<not> is_startSession_record x"
      using h2 by simp_all
    show "select_result r = r"
      and "get_prop (select_result r) ''session'' = Inr JUndefined"
      and "extract_session response = Inl TypeError"
      and "on_StartSession response w = Inl (TypeError, w)"
      using untagged_array_throws [OF h1 r u] a by simp_all
  }
  {
    fix s
    assume "get_prop (select_result r) ''session'' = Inr s \<and> s \<noteq> JNull \<and> s \<noteq> JUndefined"
    then show "returns (on_StartSession response w)"
      using h1 h2 on_StartSession_returns extract_ok by blast
  }
qed

text \<open>
  C10 on a single record, on a batch result with a tagged element, and on an array
  without one.
\<close>

theorem C10_extraction_witness:
  "returns (on_StartSession start_ok fresh_session)
   \<and> returns (on_StartSession batch_ok fresh_session)
   \<and> on_StartSession untagged_array fresh_session = Inl (TypeError, fresh_session)"
proof -
  have a: "get_prop start_ok ''success'' = Inr (JBool True)"
    "get_prop start_ok ''result'' =
       Inr (JObj [(''__object'', JStr ''App.startSession''),
                  (''session'', JObj [(''id'', JStr ''abc''),
                                      (''passport_url'', JStr ''https://login'')])])"
    by (simp_all add: start_ok_def)
  have b: "get_prop untagged_array ''success'' = Inr (JBool True)"
    "get_prop untagged_array ''result'' =
       Inr (JArr [JObj [(''__object'', JStr ''App.endSession''), (''success'', JBool True)]])"
    by (simp_all add: untagged_array_def)
  have c: "get_prop batch_ok ''success'' = Inr (JBool True)"
    "get_prop batch_ok ''result'' =
       Inr (JArr [JObj [(''__object'', JStr ''App.endSession''), (''success'', JBool True)],
                  JObj [(''__object'', JStr ''App.startSession''),
                        (''session'', JObj [(''id'', JStr ''xyz''),
                                            (''passport_url'', JStr ''https://login2'')])]])"
    by (simp_all add: batch_ok_def)
  show ?thesis
    using C10_extraction [where response = start_ok and w = fresh_session, THEN mp, OF conjI [OF a]]
      C10_extraction [where response = untagged_array and w = fresh_session, THEN mp, OF conjI [OF b]]
      C10_extraction [where response = batch_ok and w = fresh_session, THEN mp, OF conjI [OF c]]
    by (simp add: select_result_def is_startSession_record_def)
qed

end
